theory Spec2Isabelle
  imports Main "HOL-Library.Log_Nat"
begin

section \<open>The trade capability of the Hyperliquid agent\<close>

text \<open>
  The development embeds \<^verbatim>\<open>createTradeCapability(context).run\<close> (the trade
  capability, lines 48 to 372 of its source file). The function is one \<^verbatim>\<open>async\<close>
  body inside \<^verbatim>\<open>try { ... } catch (err) { ... }\<close>; it talks to the secret store
  through \<^verbatim>\<open>fetch\<close> and to the exchange through the SDK clients. Every awaited
  call is a field of the record \<open>world\<close> below, every \<^verbatim>\<open>throw\<close> is a left
  injection, every \<^verbatim>\<open>return JSON.stringify(...)\<close> is a right injection, and the
  outbound calls are collected in a list of events.
\<close>

subsection \<open>JavaScript numbers\<close>

text \<open>
  A Number is an IEEE 754 binary64 value. Finite values are kept as the rational they
  denote; the two zeros are identified. \<open>to_double\<close> rounds a rational to the nearest
  representable value, ties to even, with gradual underflow below \<open>2 ^ - 1022\<close> and
  overflow to infinity from \<open>2 ^ 1024\<close> on.
\<close>

datatype js_number = Num rat | PInfinity | NInfinity | NaN

definition pow2 :: "int \<Rightarrow> rat" where
  "pow2 e = (if 0 \<le> e then 2 ^ nat e else 1 / 2 ^ nat (- e))"

definition pow10 :: "int \<Rightarrow> rat" where
  "pow10 e = (if 0 \<le> e then 10 ^ nat e else 1 / 10 ^ nat (- e))"

definition ilog2 :: "rat \<Rightarrow> int" where
  \<comment> \<open>for \<open>0 < x\<close>: the \<open>e\<close> with \<open>2 ^ e \<le> x < 2 ^ (e + 1)\<close>\<close>
  "ilog2 x = (if 1 \<le> x then bitlen \<lfloor>x\<rfloor> - 1 else - bitlen (\<lceil>1 / x\<rceil> - 1))"

definition round_half_even :: "rat \<Rightarrow> int" where
  "round_half_even r =
     (let f = \<lfloor>r\<rfloor>; d = r - of_int f
      in if d < 1 / 2 then f else if 1 / 2 < d then f + 1 else if even f then f else f + 1)"

definition to_double :: "rat \<Rightarrow> js_number" where
  "to_double x =
     (if x = 0 then Num 0
      else let q = pow2 (max (ilog2 \<bar>x\<bar>) (- 1022) - 52);
               y = of_int (round_half_even (\<bar>x\<bar> / q)) * q
           in if pow2 1024 \<le> y then (if 0 < x then PInfinity else NInfinity)
              else Num (if 0 < x then y else - y))"

definition lit :: "rat \<Rightarrow> js_number" where
  \<comment> \<open>a numeric literal of the source text, such as \<^verbatim>\<open>1.002\<close>\<close>
  "lit r = to_double r"

definition sign_of :: "js_number \<Rightarrow> int" where
  "sign_of a = (case a of Num x \<Rightarrow> (if 0 < x then 1 else if x < 0 then - 1 else 0)
                | PInfinity \<Rightarrow> 1 | NInfinity \<Rightarrow> - 1 | NaN \<Rightarrow> 0)"

definition inf_of_sign :: "int \<Rightarrow> js_number" where
  "inf_of_sign s = (if s = 0 then NaN else if 0 < s then PInfinity else NInfinity)"

definition js_mul :: "js_number \<Rightarrow> js_number \<Rightarrow> js_number" where
  \<comment> \<open>the operator \<^verbatim>\<open>*\<close>\<close>
  "js_mul a b =
     (if a = NaN \<or> b = NaN then NaN
      else case (a, b) of
        (Num x, Num y) \<Rightarrow> to_double (x * y)
      | _ \<Rightarrow> inf_of_sign (sign_of a * sign_of b))"

definition js_div :: "js_number \<Rightarrow> js_number \<Rightarrow> js_number" where
  \<comment> \<open>the operator \<^verbatim>\<open>/\<close>; a zero divisor counts as \<open>+0\<close>\<close>
  "js_div a b =
     (if a = NaN \<or> b = NaN then NaN
      else case (a, b) of
        (Num x, Num y) \<Rightarrow> (if y = 0 then inf_of_sign (sign_of a) else to_double (x / y))
      | (Num x, _) \<Rightarrow> Num 0
      | (_, Num y) \<Rightarrow> inf_of_sign (sign_of a * (if y < 0 then - 1 else 1))
      | _ \<Rightarrow> NaN)"

definition Math_round :: "js_number \<Rightarrow> js_number" where
  \<comment> \<open>\<^verbatim>\<open>Math.round\<close>: the nearest integer, a tie goes up\<close>
  "Math_round a = (case a of Num x \<Rightarrow> Num (of_int \<lfloor>x + 1 / 2\<rfloor>) | _ \<Rightarrow> a)"

text \<open>
  \<^verbatim>\<open>Number.prototype.toFixed(f)\<close> prints a finite number below \<open>10 ^ 21\<close> in
  fixed notation: the integer \<open>n\<close> nearest to \<open>x * 10 ^ f\<close> (the larger one on a tie),
  written with \<open>f\<close> fractional digits. Every other number is printed by
  \<^verbatim>\<open>Number::toString\<close>, which is kept symbolic.
\<close>

datatype numeric_string =
    Fixed bool nat nat  \<comment> \<open>minus sign, the integer \<open>n\<close>, the number \<open>f\<close> of fractional digits\<close>
  | ToString js_number

definition toFixed :: "js_number \<Rightarrow> nat \<Rightarrow> numeric_string" where
  "toFixed a f =
     (case a of
        Num x \<Rightarrow> (if \<bar>x\<bar> < 10 ^ 21 then Fixed (x < 0) (nat \<lfloor>\<bar>x\<bar> * 10 ^ f + 1 / 2\<rfloor>) f
                  else ToString a)
      | _ \<Rightarrow> ToString a)"

definition fixed_value :: "numeric_string \<Rightarrow> rat option" where
  \<comment> \<open>the number a fixed-notation string denotes\<close>
  "fixed_value t =
     (case t of Fixed neg n f \<Rightarrow> Some ((if neg then - 1 else 1) * of_nat n / 10 ^ f)
      | ToString _ \<Rightarrow> None)"

subsection \<open>Strings and numbers\<close>

definition dq :: char where
  "dq = CHR 0x22"

definition quoted :: "string \<Rightarrow> string" where
  "quoted t = dq # t @ [dq]"

definition sq :: char where
  "sq = CHR 0x27"

definition single_quoted :: "string \<Rightarrow> string" where
  "single_quoted t = sq # t @ [sq]"

definition digit_char :: "nat \<Rightarrow> char" where
  "digit_char d = ''0123456789'' ! d"

fun decimal :: "nat \<Rightarrow> string" where
  "decimal n = (if n < 10 then [digit_char n] else decimal (n div 10) @ [digit_char (n mod 10)])"

declare decimal.simps [simp del]

definition fixed_text :: "bool \<Rightarrow> nat \<Rightarrow> nat \<Rightarrow> string" where
  \<comment> \<open>the characters of \<open>Fixed neg n f\<close>, as \<^verbatim>\<open>toFixed\<close> lays them out\<close>
  "fixed_text neg n f =
     (let m = decimal n;
          m' = (if f = 0 then m
                else let z = replicate (Suc f - length m) CHR ''0'' @ m;
                         k = length z
                     in take (k - f) z @ ''.'' @ drop (k - f) z)
      in (if neg then ''-'' else []) @ m')"

fun findIndex :: "('a \<Rightarrow> bool) \<Rightarrow> 'a list \<Rightarrow> nat option" where
  \<comment> \<open>\<^verbatim>\<open>Array.prototype.findIndex\<close>, with \<open>None\<close> for \<open>-1\<close>\<close>
  "findIndex P [] = None"
| "findIndex P (x # xs) = (if P x then Some 0 else map_option Suc (findIndex P xs))"

definition digit_of :: "char \<Rightarrow> nat option" where
  "digit_of c = findIndex (\<lambda>d. d = c) ''0123456789''"

definition hex_digit_of :: "char \<Rightarrow> nat option" where
  "hex_digit_of c =
     (case findIndex (\<lambda>d. d = c) ''0123456789abcdef'' of
        Some d \<Rightarrow> Some d
      | None \<Rightarrow> findIndex (\<lambda>d. d = c) ''0123456789ABCDEF'')"

fun digits_prefix :: "(char \<Rightarrow> nat option) \<Rightarrow> string \<Rightarrow> nat list \<times> string" where
  "digits_prefix dig [] = ([], [])"
| "digits_prefix dig (c # cs) =
     (case dig c of
        None \<Rightarrow> ([], c # cs)
      | Some d \<Rightarrow> (case digits_prefix dig cs of (ds, rest) \<Rightarrow> (d # ds, rest)))"

definition digits_value :: "nat \<Rightarrow> nat list \<Rightarrow> nat" where
  "digits_value radix ds = foldl (\<lambda>acc d. radix * acc + d) 0 ds"

definition is_space :: "char \<Rightarrow> bool" where
  \<comment> \<open>the white space and line terminators of the ASCII range\<close>
  "is_space c \<longleftrightarrow> c \<in> {CHR 0x20, CHR 0x09, CHR 0x0A, CHR 0x0B, CHR 0x0C, CHR 0x0D}"

fun strip_sign :: "string \<Rightarrow> bool \<times> string" where
  "strip_sign [] = (False, [])"
| "strip_sign (c # cs) =
     (if c = CHR ''-'' then (True, cs) else if c = CHR ''+'' then (False, cs) else (False, c # cs))"

definition exponent_part :: "string \<Rightarrow> int" where
  "exponent_part t =
     (case t of
        [] \<Rightarrow> 0
      | c # cs \<Rightarrow>
          (if c = CHR ''e'' \<or> c = CHR ''E''
           then (case strip_sign cs of
                   (neg, r) \<Rightarrow>
                     (case digits_prefix digit_of r of
                        (ds, _) \<Rightarrow>
                          (if ds = [] then 0
                           else if neg then - int (digits_value 10 ds) else int (digits_value 10 ds))))
           else 0))"

definition parseFloat :: "string \<Rightarrow> js_number" where
  \<comment> \<open>the longest prefix that is a decimal literal, after leading white space\<close>
  "parseFloat str =
     (case strip_sign (dropWhile is_space str) of
        (neg, t) \<Rightarrow>
          (if take 8 t = ''Infinity'' then (if neg then NInfinity else PInfinity)
           else case digits_prefix digit_of t of
             (ip, r1) \<Rightarrow>
               (case (case r1 of [] \<Rightarrow> ([], r1)
                      | c # cs \<Rightarrow> (if c = CHR ''.'' then digits_prefix digit_of cs else ([], r1))) of
                  (fp, r2) \<Rightarrow>
                    (if ip = [] \<and> fp = [] then NaN
                     else let v = of_nat (digits_value 10 (ip @ fp))
                                    * pow10 (exponent_part r2 - int (length fp))
                          in to_double (if neg then - v else v)))))"

definition parseInt :: "string \<Rightarrow> js_number" where
  \<comment> \<open>no radix argument: base 16 after a \<^verbatim>\<open>0x\<close> prefix, base 10 otherwise\<close>
  "parseInt str =
     (case strip_sign (dropWhile is_space str) of
        (neg, t) \<Rightarrow>
          (let hex = (take 2 t = ''0x'' \<or> take 2 t = ''0X'');
               ds = (if hex then fst (digits_prefix hex_digit_of (drop 2 t))
                     else fst (digits_prefix digit_of t));
               v = of_nat (digits_value (if hex then 16 else 10) ds)
           in if ds = [] then NaN else to_double (if neg then - v else v)))"

subsection \<open>JavaScript values and exceptions\<close>

text \<open>
  Values that come out of \<^verbatim>\<open>JSON.parse\<close>, and the objects handed to
  \<^verbatim>\<open>JSON.stringify\<close>, are terms of \<open>json\<close>; a \<open>json option\<close> adds
  \<^verbatim>\<open>undefined\<close> as \<open>None\<close>. Both handlers catch a value of type
  \<^verbatim>\<open>any\<close>. A thrown value is either an instance of \<^verbatim>\<open>Error\<close>, which has a
  string for its message and a string for its stack (what \<^verbatim>\<open>fetch\<close>, the response
  readers, the exchange SDK and the language itself throw), or any other value:
  \<^verbatim>\<open>undefined\<close>, \<^verbatim>\<open>null\<close>, a primitive, or an array or plain object of such
  values. The \<^verbatim>\<open>TypeError\<close>s of the language carry the wording of V8, the engine
  of Node.
\<close>

datatype json =
    JNull
  | JBool bool
  | JNum rat
  | JStr string
  | JArr "json list"
  | JObj "(string \<times> json) list"

datatype thrown =
    Error string  \<comment> \<open>an instance of \<^verbatim>\<open>Error\<close> with this message\<close>
  | Plain "json option"  \<comment> \<open>any other value\<close>

definition truthy :: "json option \<Rightarrow> bool" where
  "truthy v =
     (case v of
        None \<Rightarrow> False
      | Some JNull \<Rightarrow> False
      | Some (JBool b) \<Rightarrow> b
      | Some (JNum x) \<Rightarrow> x \<noteq> 0
      | Some (JStr t) \<Rightarrow> t \<noteq> []
      | Some _ \<Rightarrow> True)"

definition truthy_string :: "string option \<Rightarrow> bool" where
  "truthy_string v = (case v of None \<Rightarrow> False | Some t \<Rightarrow> t \<noteq> [])"

definition get_prop :: "json option \<Rightarrow> string \<Rightarrow> thrown + json option" where
  \<comment> \<open>\<^verbatim>\<open>v.k\<close> for a property name that is neither an index nor built in\<close>
  "get_prop v k =
     (case v of
        None \<Rightarrow>
          Inl (Error (''Cannot read properties of undefined (reading '' @ single_quoted k @ '')''))
      | Some JNull \<Rightarrow>
          Inl (Error (''Cannot read properties of null (reading '' @ single_quoted k @ '')''))
      | Some (JObj kvs) \<Rightarrow> Inr (map_of kvs k)
      | Some _ \<Rightarrow> Inr None)"

definition get_index :: "json option \<Rightarrow> nat \<Rightarrow> thrown + json option" where
  \<comment> \<open>\<^verbatim>\<open>v[i]\<close>\<close>
  "get_index v i =
     (case v of
        None \<Rightarrow>
          Inl (Error (''Cannot read properties of undefined (reading ''
                        @ single_quoted (decimal i) @ '')''))
      | Some JNull \<Rightarrow>
          Inl (Error (''Cannot read properties of null (reading ''
                        @ single_quoted (decimal i) @ '')''))
      | Some (JArr xs) \<Rightarrow> Inr (if i < length xs then Some (xs ! i) else None)
      | Some (JObj kvs) \<Rightarrow> Inr (map_of kvs (decimal i))
      | Some (JStr t) \<Rightarrow> Inr (if i < length t then Some (JStr [t ! i]) else None)
      | Some _ \<Rightarrow> Inr None)"

definition operand_text :: "json option \<Rightarrow> string" where
  \<comment> \<open>a primitive as the message of the \<^verbatim>\<open>in\<close> operator shows it; a number is shown
    by the digits of its integer part, which is its text when it is an integer below
    \<open>10 ^ 21\<close> (the text of other numbers is not modelled)\<close>
  "operand_text v =
     (case v of
        None \<Rightarrow> ''undefined''
      | Some JNull \<Rightarrow> ''null''
      | Some (JBool b) \<Rightarrow> (if b then ''true'' else ''false'')
      | Some (JNum x) \<Rightarrow> (if x < 0 then ''-'' else []) @ decimal (nat \<lfloor>\<bar>x\<bar>\<rfloor>)
      | Some (JStr t) \<Rightarrow> t
      | Some _ \<Rightarrow> [])"

definition has_prop :: "string \<Rightarrow> json option \<Rightarrow> thrown + bool" where
  \<comment> \<open>\<^verbatim>\<open>k in v\<close> for a property name that is neither an index nor built in\<close>
  "has_prop k v =
     (case v of
        Some (JObj kvs) \<Rightarrow> Inr (k \<in> fst ` set kvs)
      | Some (JArr xs) \<Rightarrow> Inr False
      | _ \<Rightarrow> Inl (Error (''Cannot use '' @ single_quoted ''in'' @ '' operator to search for ''
                          @ single_quoted k @ '' in '' @ operand_text v)))"

fun printable :: "json \<Rightarrow> bool" where
  \<comment> \<open>the conversion of a value to a string runs through. A plain object is converted by
    the \<^verbatim>\<open>toString\<close> it inherits, unless a member of its own of that name hides it:
    such a member is no function, and the \<^verbatim>\<open>valueOf\<close> that is tried next answers
    with the object itself. An array joins the texts of its elements\<close>
  "printable (JObj kvs) \<longleftrightarrow> map_of kvs ''toString'' = None"
| "printable (JArr xs) \<longleftrightarrow> list_all printable xs"
| "printable _ \<longleftrightarrow> True"

definition shown :: "json option \<Rightarrow> bool" where
  \<comment> \<open>\<^verbatim>\<open>`${v}`\<close> runs through\<close>
  "shown v = (case v of None \<Rightarrow> True | Some j \<Rightarrow> printable j)"

definition not_printable :: thrown where
  "not_printable = Error ''Cannot convert object to primitive value''"

definition bind_js :: "thrown + 'a \<Rightarrow> ('a \<Rightarrow> thrown + 'b) \<Rightarrow> thrown + 'b" where
  "bind_js m f = (case m of Inl e \<Rightarrow> Inl e | Inr x \<Rightarrow> f x)"

definition object :: "(string \<times> json option) list \<Rightarrow> json" where
  \<comment> \<open>an object literal as \<^verbatim>\<open>JSON.stringify\<close> writes it: undefined members are left out\<close>
  "object fields = JObj (List.map_filter (\<lambda>(k, v). map_option (Pair k) v) fields)"

subsection \<open>The request, the collaborators and the events\<close>

datatype side = Buy | Sell

definition side_text :: "side \<Rightarrow> string" where
  "side_text sd = (case sd of Buy \<Rightarrow> ''buy'' | Sell \<Rightarrow> ''sell'')"

record trade_args =
  coin :: string
  side :: side
  size_arg :: string
  leverage :: "string option"
  reduceOnly :: "bool option"
  pk_name :: string
  vault_name :: "string option"

record env =
  OPENSERV_API_KEY :: "string option"
  OPENSERV_API_URL :: "string option"
  HYPERLIQUID_TESTNET :: "string option"

record secret =
  secret_id :: string
  secret_name :: string

record 'a http_response =
  ok :: bool
  status :: nat
  body :: "thrown + 'a"

record asset =
  asset_name :: string
  szDecimals :: int

record client =
  wallet :: string
  defaultVaultAddress :: "string option"
  isTestnet :: bool

record order_request =
  order_a :: nat
  order_b :: bool
  order_p :: numeric_string
  order_s :: string
  order_r :: bool
  order_tif :: string
  order_grouping :: string

text \<open>
  The collaborators. Each field is the outcome of one awaited call, as a function of
  what the call is given; \<open>Inl\<close> (or \<open>Some\<close> for a call without a result) is a
  rejected promise. The universe metadata is read at two places, in the leverage step
  and before pricing, and may differ between them. The table of mid prices is an object
  parsed from JSON: a finite map from the coins it lists to their price strings, on top
  of the members every object inherits from \<^verbatim>\<open>Object.prototype\<close>.
\<close>

record world =
  fetch_secrets :: "string \<Rightarrow> thrown + (secret list) http_response"
  fetch_value :: "string \<Rightarrow> thrown + string http_response"
  new_ExchangeClient :: "client \<Rightarrow> thrown option"
  allMids :: "thrown + (string \<rightharpoonup> string)"
  meta_for_leverage :: "thrown + asset list"
  meta_for_order :: "thrown + asset list"
  updateLeverage :: "client \<Rightarrow> nat \<Rightarrow> bool \<Rightarrow> js_number \<Rightarrow> thrown option"
  order :: "client \<Rightarrow> order_request \<Rightarrow> thrown + json"

text \<open>
  The events of a run, in order: the outbound calls, and the three console lines the
  properties below speak about (the other console output is not modelled).
\<close>

datatype event =
    Fetch string
  | NewExchangeClient client
  | AllMids
  | Meta
  | UpdateLeverage client nat bool js_number
  | Order client order_request
  | LogVaultNotFound string
  | LogLeverageFailed "json option"
  | LogAvgFillPrice "json + numeric_string"

type_synonym outcome = "event list \<times> (thrown + json)"

definition emit :: "event list \<Rightarrow> outcome \<Rightarrow> outcome" where
  "emit evs out = (evs @ fst out, snd out)"

definition returns :: "json \<Rightarrow> outcome" where
  "returns j = ([], Inr j)"

definition throws :: "thrown \<Rightarrow> outcome" where
  "throws e = ([], Inl e)"

definition failure :: "string \<Rightarrow> json" where
  \<comment> \<open>\<^verbatim>\<open>{ error: msg, success: false }\<close>\<close>
  "failure msg = object [(''error'', Some (JStr msg)), (''success'', Some (JBool False))]"

subsection \<open>Step 6: the limit price\<close>

definition quantize :: "js_number \<Rightarrow> side \<Rightarrow> int \<Rightarrow> numeric_string" where
  \<comment> \<open>lines 257 to 266; the first argument is \<^verbatim>\<open>parseFloat(coinPrice)\<close>\<close>
  "quantize price sd szd =
     (let priceAdjustment = (if sd = Buy then lit (1002 / 1000) else lit (998 / 1000));
          rawPrice = js_mul price priceAdjustment;
          tickSize = (if 5 \<le> szd then lit 1 else if 4 \<le> szd then lit (1 / 10)
                      else if 3 \<le> szd then lit (1 / 100) else lit (1 / 1000))
      in toFixed (js_mul (Math_round (js_div rawPrice tickSize)) tickSize)
           (if 5 \<le> szd then 0 else if 4 \<le> szd then 1 else if 3 \<le> szd then 2 else 3))"

subsection \<open>Steps 7 and 8: submission and the reading of the reply\<close>

definition first_status :: "json \<Rightarrow> thrown + json option" where
  \<comment> \<open>\<^verbatim>\<open>orderResult.response.type === 'order' && orderResult.response.data?.statuses[0]\<close>\<close>
  "first_status orderResult =
     bind_js (get_prop (Some orderResult) ''response'') (\<lambda>response.
     bind_js (get_prop response ''type'') (\<lambda>ty.
       if ty = Some (JStr ''order'')
       then bind_js (get_prop response ''data'') (\<lambda>data.
              if data = None \<or> data = Some JNull then Inr None
              else bind_js (get_prop data ''statuses'') (\<lambda>statuses. get_index statuses 0))
       else Inr None))"

definition malformed :: "json \<Rightarrow> json" where
  "malformed orderResult =
     object [(''success'', Some (JBool False)),
             (''error'', Some (JStr ''Unexpected response from exchange'')),
             (''response'', Some orderResult)]"

definition on_filled :: "trade_args \<Rightarrow> numeric_string \<Rightarrow> json option \<Rightarrow> outcome" where
  "on_filled args limitPrice st =
     (case bind_js (get_prop st ''filled'') (\<lambda>filled.
             bind_js (get_prop filled ''avgPx'') (\<lambda>avgPx.
             bind_js (get_prop filled ''totalSz'') (\<lambda>totalSz.
             bind_js (get_prop filled ''oid'') (\<lambda>oid. Inr (avgPx, totalSz, oid))))) of
        Inl e \<Rightarrow> throws e
      | Inr (avgPx, totalSz, oid) \<Rightarrow>
          if truthy avgPx \<and> \<not> shown avgPx then throws not_printable
          else emit [LogAvgFillPrice (case avgPx of
                                   None \<Rightarrow> Inr limitPrice
                                 | Some px \<Rightarrow> if truthy avgPx then Inl px else Inr limitPrice)]
            (if \<not> shown totalSz then throws not_printable
             else returns (object
               [(''success'', Some (JBool True)),
                (''coin'', Some (JStr (coin args))),
                (''side'', Some (JStr (side_text (side args)))),
                (''size'', Some (JStr (size_arg args))),
                (''leverage'', map_option JStr (leverage args)),
                (''avgFillPrice'', avgPx),
                (''totalFilled'', totalSz),
                (''oid'', oid),
                (''message'', Some (JStr (''Successfully ''
                    @ (if side args = Buy then ''longed'' else ''shorted'')
                    @ '' '' @ size_arg args @ '' '' @ coin args)))])))"

definition on_error :: "trade_args \<Rightarrow> json option \<Rightarrow> outcome" where
  "on_error args st =
     (case get_prop st ''error'' of
        Inl e \<Rightarrow> throws e
      | Inr err \<Rightarrow>
          if \<not> shown err then throws not_printable
          else returns (object
            [(''success'', Some (JBool False)),
             (''error'', err),
             (''coin'', Some (JStr (coin args))),
             (''side'', Some (JStr (side_text (side args))))]))"

definition on_resting :: "trade_args \<Rightarrow> json option \<Rightarrow> outcome" where
  "on_resting args st =
     (case bind_js (get_prop st ''resting'') (\<lambda>resting. get_prop resting ''oid'') of
        Inl e \<Rightarrow> throws e
      | Inr oid \<Rightarrow>
          if \<not> shown oid then throws not_printable
          else returns (object
            [(''success'', Some (JBool True)),
             (''status'', Some (JStr ''resting'')),
             (''oid'', oid),
             (''message'', Some (JStr ''Order placed and waiting to be filled'')),
             (''coin'', Some (JStr (coin args))),
             (''side'', Some (JStr (side_text (side args))))]))"

definition classify :: "trade_args \<Rightarrow> numeric_string \<Rightarrow> json \<Rightarrow> outcome" where
  \<comment> \<open>lines 297 to 356\<close>
  "classify args limitPrice orderResult =
     (case first_status orderResult of
        Inl e \<Rightarrow> throws e
      | Inr st \<Rightarrow>
          if truthy st
          then (case has_prop ''filled'' st of
                  Inl e \<Rightarrow> throws e
                | Inr True \<Rightarrow> on_filled args limitPrice st
                | Inr False \<Rightarrow>
                    (case has_prop ''error'' st of
                       Inl e \<Rightarrow> throws e
                     | Inr True \<Rightarrow> on_error args st
                     | Inr False \<Rightarrow>
                         (case has_prop ''resting'' st of
                            Inl e \<Rightarrow> throws e
                          | Inr True \<Rightarrow> on_resting args st
                          | Inr False \<Rightarrow> returns (malformed orderResult))))
          else returns (malformed orderResult))"

definition place_order :: "world \<Rightarrow> client \<Rightarrow> trade_args \<Rightarrow> nat \<Rightarrow> numeric_string \<Rightarrow> outcome" where
  \<comment> \<open>lines 278 to 292, then the classification\<close>
  "place_order w cl args assetIndex limitPrice =
     (let req = \<lparr>order_a = assetIndex,
                 order_b = (side args = Buy),
                 order_p = limitPrice,
                 order_s = size_arg args,
                 order_r = (case reduceOnly args of Some b \<Rightarrow> b | None \<Rightarrow> False),
                 order_tif = ''Ioc'',
                 order_grouping = ''na''\<rparr>
      in emit [Order cl req]
           (case order w cl req of
              Inl e \<Rightarrow> throws e
            | Inr orderResult \<Rightarrow> classify args limitPrice orderResult))"

subsection \<open>Steps 4 and 5: leverage and asset metadata\<close>

definition Object_prototype :: "string list" where
  \<comment> \<open>the names \<^verbatim>\<open>Object.prototype\<close> defines: eleven functions and the accessor
    \<^verbatim>\<open>__proto__\<close>, which answers with \<^verbatim>\<open>Object.prototype\<close> itself\<close>
  "Object_prototype =
     [''constructor'', ''__defineGetter__'', ''__defineSetter__'', ''hasOwnProperty'',
      ''__lookupGetter__'', ''__lookupSetter__'', ''isPrototypeOf'', ''propertyIsEnumerable'',
      ''toString'', ''valueOf'', ''__proto__'', ''toLocaleString'']"

datatype mid =
    Quote string  \<comment> \<open>a price string of the table\<close>
  | Inherited string  \<comment> \<open>the member of \<^verbatim>\<open>Object.prototype\<close> of this name\<close>

definition read_mid :: "(string \<rightharpoonup> string) \<Rightarrow> string \<Rightarrow> mid option" where
  \<comment> \<open>\<^verbatim>\<open>allMids[args.coin]\<close>, line 200\<close>
  "read_mid mids c =
     (case mids c of
        Some t \<Rightarrow> Some (Quote t)
      | None \<Rightarrow> if c \<in> set Object_prototype then Some (Inherited c) else None)"

definition price_of :: "mid \<Rightarrow> js_number" where
  \<comment> \<open>\<^verbatim>\<open>parseFloat(coinPrice)\<close>, line 258: the text of a function and the text of
    \<^verbatim>\<open>Object.prototype\<close> begin with no number\<close>
  "price_of coinPrice = (case coinPrice of Quote t \<Rightarrow> parseFloat t | Inherited _ \<Rightarrow> NaN)"

definition price_and_submit :: "world \<Rightarrow> client \<Rightarrow> trade_args \<Rightarrow> mid \<Rightarrow> outcome" where
  \<comment> \<open>lines 240 to 356: metadata, limit price, order\<close>
  "price_and_submit w cl args coinPrice =
     emit [Meta]
       (case meta_for_order w of
          Inl e \<Rightarrow> throws e
        | Inr universe \<Rightarrow>
            (case findIndex (\<lambda>u. asset_name u = coin args) universe of
               None \<Rightarrow> returns (failure (''Asset '' @ coin args @ '' not found''))
             | Some assetIndex \<Rightarrow>
                 place_order w cl args assetIndex
                   (quantize (price_of coinPrice) (side args)
                      (szDecimals (universe ! assetIndex)))))"

definition message_of :: "thrown \<Rightarrow> thrown + json option" where
  \<comment> \<open>\<^verbatim>\<open>leverageError.message\<close>, line 234: the read throws on \<^verbatim>\<open>null\<close> and on
    \<^verbatim>\<open>undefined\<close>\<close>
  "message_of err =
     (case err of
        Error m \<Rightarrow> Inr (Some (JStr m))
      | Plain v \<Rightarrow> get_prop v ''message'')"

definition on_leverage_error :: "world \<Rightarrow> client \<Rightarrow> trade_args \<Rightarrow> mid \<Rightarrow> thrown \<Rightarrow> outcome" where
  \<comment> \<open>lines 233 to 236, then the rest of the pipeline; what the handler throws is thrown
    inside the outer \<^verbatim>\<open>try\<close>\<close>
  "on_leverage_error w cl args coinPrice leverageError =
     (case message_of leverageError of
        Inl e \<Rightarrow> throws e
      | Inr msg \<Rightarrow>
          if \<not> shown msg then throws not_printable
          else emit [LogLeverageFailed msg] (price_and_submit w cl args coinPrice))"

definition adjust_leverage :: "world \<Rightarrow> client \<Rightarrow> trade_args \<Rightarrow> mid \<Rightarrow> outcome" where
  \<comment> \<open>lines 213 to 237, then the rest of the pipeline\<close>
  "adjust_leverage w cl args coinPrice =
     (case leverage args of
        None \<Rightarrow> price_and_submit w cl args coinPrice
      | Some lev \<Rightarrow>
          if lev = [] then price_and_submit w cl args coinPrice
          else emit [Meta]
            (case meta_for_leverage w of
               Inl leverageError \<Rightarrow> on_leverage_error w cl args coinPrice leverageError
             | Inr universe \<Rightarrow>
                 (case findIndex (\<lambda>u. asset_name u = coin args) universe of
                    None \<Rightarrow> returns (failure (''Asset '' @ coin args @ '' not found in universe''))
                  | Some assetIndex \<Rightarrow>
                      emit [UpdateLeverage cl assetIndex True (parseInt lev)]
                        (case updateLeverage w cl assetIndex True (parseInt lev) of
                           Some leverageError \<Rightarrow>
                             on_leverage_error w cl args coinPrice leverageError
                         | None \<Rightarrow> price_and_submit w cl args coinPrice))))"

subsection \<open>Steps 1 to 3: credentials, client, market price\<close>

definition read_price :: "world \<Rightarrow> client \<Rightarrow> trade_args \<Rightarrow> outcome" where
  \<comment> \<open>lines 198 to 210\<close>
  "read_price w cl args =
     emit [AllMids]
       (case allMids w of
          Inl e \<Rightarrow> throws e
        | Inr mids \<Rightarrow>
            (case read_mid mids (coin args) of
               None \<Rightarrow> returns (failure (''Coin '' @ quoted (coin args)
                          @ '' not found. Check symbol (e.g., '' @ quoted ''BTC'' @ '', '' @ quoted ''ETH'' @ '')''))
             | Some coinPrice \<Rightarrow>
                 if coinPrice = Quote []
                 then returns (failure (''Coin '' @ quoted (coin args)
                          @ '' not found. Check symbol (e.g., '' @ quoted ''BTC'' @ '', '' @ quoted ''ETH'' @ '')''))
                 else adjust_leverage w cl args coinPrice))"

definition with_credentials :: "world \<Rightarrow> env \<Rightarrow> trade_args \<Rightarrow> string \<Rightarrow> string option \<Rightarrow> outcome" where
  \<comment> \<open>lines 170 to 193: the exchange client is built from the resolved secrets\<close>
  "with_credentials w ev args PRIVATE_KEY VAULT_ADDRESS =
     (let cl = \<lparr>wallet = PRIVATE_KEY,
                defaultVaultAddress = VAULT_ADDRESS,
                isTestnet = (HYPERLIQUID_TESTNET ev = Some ''true'')\<rparr>
      in emit [NewExchangeClient cl]
           (case new_ExchangeClient w cl of
              Some e \<Rightarrow> throws e
            | None \<Rightarrow> read_price w cl args))"

definition strip_quotes :: "string \<Rightarrow> string" where
  \<comment> \<open>\<^verbatim>\<open>.replace(/^"|"$/g, '')\<close>\<close>
  "strip_quotes t =
     (let u = (if t \<noteq> [] \<and> hd t = dq then tl t else t)
      in if u \<noteq> [] \<and> last u = dq then butlast u else u)"

definition value_url :: "string \<Rightarrow> string \<Rightarrow> string \<Rightarrow> string" where
  "value_url base workspaceId sid =
     base @ ''/workspaces/'' @ workspaceId @ ''/agent-secrets/'' @ sid @ ''/value''"

definition resolve_secrets ::
  "world \<Rightarrow> env \<Rightarrow> trade_args \<Rightarrow> string \<Rightarrow> string \<Rightarrow> secret list \<Rightarrow> outcome" where
  \<comment> \<open>lines 110 to 168\<close>
  "resolve_secrets w ev args base workspaceId secrets =
     (let privateKeySecret = find (\<lambda>s. secret_name s = pk_name args) secrets;
          vaultAddressSecret =
            (case vault_name args of
               None \<Rightarrow> None
             | Some v \<Rightarrow> if v = [] then None else find (\<lambda>s. secret_name s = v) secrets)
      in case privateKeySecret of
           None \<Rightarrow>
             returns (object
               [(''error'', Some (JStr (''Secret '' @ quoted (pk_name args)
                                          @ '' not found in OpenServ workspace''))),
                (''availableSecrets'', Some (JArr (map (\<lambda>s. JStr (secret_name s)) secrets))),
                (''success'', Some (JBool False))])
         | Some pk \<Rightarrow>
             emit (case vault_name args of
                     None \<Rightarrow> []
                   | Some v \<Rightarrow> if v \<noteq> [] \<and> vaultAddressSecret = None
                               then [LogVaultNotFound v] else [])
              (emit [Fetch (value_url base workspaceId (secret_id pk))]
                (case fetch_value w (value_url base workspaceId (secret_id pk)) of
                   Inl e \<Rightarrow> throws e
                 | Inr privateKeyResponse \<Rightarrow>
                     if \<not> ok privateKeyResponse
                     then returns (failure (''Failed to get '' @ quoted (pk_name args)
                                     @ '' value: '' @ decimal (status privateKeyResponse)))
                     else (case body privateKeyResponse of
                             Inl e \<Rightarrow> throws e
                           | Inr raw \<Rightarrow>
                               (case vaultAddressSecret of
                                  None \<Rightarrow> with_credentials w ev args (strip_quotes raw) None
                                | Some vs \<Rightarrow>
                                    emit [Fetch (value_url base workspaceId (secret_id vs))]
                                      (case fetch_value w (value_url base workspaceId (secret_id vs)) of
                                         Inl e \<Rightarrow> throws e
                                       | Inr vaultResponse \<Rightarrow>
                                           if ok vaultResponse
                                           then (case body vaultResponse of
                                                   Inl e \<Rightarrow> throws e
                                                 | Inr vraw \<Rightarrow>
                                                     with_credentials w ev args (strip_quotes raw)
                                                       (Some (strip_quotes vraw)))
                                           else with_credentials w ev args (strip_quotes raw) None))))))"

definition api_base :: "env \<Rightarrow> string" where
  \<comment> \<open>\<^verbatim>\<open>env.OPENSERV_API_URL || 'https://api.openserv.ai'\<close>\<close>
  "api_base ev =
     (case OPENSERV_API_URL ev of
        None \<Rightarrow> ''https://api.openserv.ai''
      | Some u \<Rightarrow> if u = [] then ''https://api.openserv.ai'' else u)"

definition secrets_url :: "string \<Rightarrow> string \<Rightarrow> string" where
  "secrets_url base workspaceId = base @ ''/workspaces/'' @ workspaceId @ ''/agent-secrets''"

definition run_try :: "world \<Rightarrow> env \<Rightarrow> string option \<Rightarrow> trade_args \<Rightarrow> outcome" where
  \<comment> \<open>the body of the \<^verbatim>\<open>try\<close> block; the third argument is \<^verbatim>\<open>action?.workspace?.id\<close>\<close>
  "run_try w ev workspace args =
     (case workspace of
        None \<Rightarrow> returns (failure ''Workspace ID is required to fetch secrets'')
      | Some workspaceId \<Rightarrow>
          if workspaceId = [] then returns (failure ''Workspace ID is required to fetch secrets'')
          else if \<not> truthy_string (OPENSERV_API_KEY ev)
          then returns (failure ''OPENSERV_API_KEY not configured'')
          else emit [Fetch (secrets_url (api_base ev) workspaceId)]
                 (case fetch_secrets w (secrets_url (api_base ev) workspaceId) of
                    Inl e \<Rightarrow> throws e
                  | Inr secretsListResponse \<Rightarrow>
                      if \<not> ok secretsListResponse
                      then returns (failure (''Failed to list secrets: ''
                                      @ decimal (status secretsListResponse)))
                      else (case body secretsListResponse of
                              Inl e \<Rightarrow> throws e
                            | Inr secrets \<Rightarrow>
                                resolve_secrets w ev args (api_base ev) workspaceId secrets)))"

definition optional_prop :: "json option \<Rightarrow> string \<Rightarrow> json option" where
  \<comment> \<open>\<^verbatim>\<open>v?.k\<close> for a property name that is neither an index nor built in\<close>
  "optional_prop v k = (case v of Some (JObj kvs) \<Rightarrow> map_of kvs k | _ \<Rightarrow> None)"

definition is_string :: "json option \<Rightarrow> bool" where
  "is_string v = (case v of Some (JStr t) \<Rightarrow> True | _ \<Rightarrow> False)"

definition caught :: "json option \<Rightarrow> json" where
  \<comment> \<open>\<^verbatim>\<open>{ error: err?.message || 'Unknown error', success: false }\<close>, lines 367 to 370\<close>
  "caught msg =
     object [(''error'', Some (case msg of
                                 None \<Rightarrow> JStr ''Unknown error''
                               | Some m \<Rightarrow> if truthy msg then m else JStr ''Unknown error'')),
             (''success'', Some (JBool False))]"

definition on_exception :: "thrown \<Rightarrow> thrown + json" where
  \<comment> \<open>the \<^verbatim>\<open>catch\<close> clause, lines 358 to 371. Line 361 prints
    \<^verbatim>\<open>err?.message || err\<close>. Line 363 calls \<^verbatim>\<open>err.stack.split\<close> whenever the
    stack is truthy; only a string has that method, so for any other truthy stack the
    clause itself throws\<close>
  "on_exception err =
     (case err of
        Error m \<Rightarrow> Inr (caught (Some (JStr m)))
      | Plain v \<Rightarrow>
          (let msg = optional_prop v ''message'';
               stack = optional_prop v ''stack''
           in if \<not> shown (if truthy msg then msg else v) then Inl not_printable
              else if truthy stack \<and> \<not> is_string stack
              then Inl (Error ''err.stack.split is not a function'')
              else Inr (caught msg)))"

definition run :: "world \<Rightarrow> env \<Rightarrow> string option \<Rightarrow> trade_args \<Rightarrow> outcome" where
  \<comment> \<open>the whole function: what the \<^verbatim>\<open>try\<close> block throws goes to the \<^verbatim>\<open>catch\<close>
    clause, and what that clause throws rejects the promise \<^verbatim>\<open>run\<close> returns\<close>
  "run w ev workspace args =
     (case run_try w ev workspace args of
        (evs, Inl err) \<Rightarrow> (evs, on_exception err)
      | (evs, Inr result) \<Rightarrow> (evs, Inr result))"

subsection \<open>Reading a run\<close>

fun orders_of :: "event list \<Rightarrow> (client \<times> order_request) list" where
  "orders_of [] = []"
| "orders_of (Order cl req # evs) = (cl, req) # orders_of evs"
| "orders_of (_ # evs) = orders_of evs"

fun clients_of :: "event list \<Rightarrow> client list" where
  "clients_of [] = []"
| "clients_of (NewExchangeClient cl # evs) = cl # clients_of evs"
| "clients_of (UpdateLeverage cl _ _ _ # evs) = cl # clients_of evs"
| "clients_of (Order cl _ # evs) = cl # clients_of evs"
| "clients_of (_ # evs) = clients_of evs"

definition order_of :: "trade_args \<Rightarrow> nat \<Rightarrow> numeric_string \<Rightarrow> order_request" where
  \<comment> \<open>the request \<open>place_order\<close> sends\<close>
  "order_of args assetIndex limitPrice =
     \<lparr>order_a = assetIndex,
      order_b = (side args = Buy),
      order_p = limitPrice,
      order_s = size_arg args,
      order_r = (case reduceOnly args of Some b \<Rightarrow> b | None \<Rightarrow> False),
      order_tif = ''Ioc'',
      order_grouping = ''na''\<rparr>"

subsection \<open>The specification's wording of two steps\<close>

definition strip_enclosing_quotes :: "string \<Rightarrow> string" where
  \<comment> \<open>``one layer of enclosing quote characters stripped if present'', unchanged otherwise\<close>
  "strip_enclosing_quotes t =
     (if 2 \<le> length t \<and> hd t = dq \<and> last t = dq then butlast (tl t) else t)"

definition tick_table :: "int \<Rightarrow> js_number \<times> nat" where
  \<comment> \<open>the table of section 4.3: tick size and price decimals\<close>
  "tick_table szd =
     (if 5 \<le> szd then (lit 1, 0)
      else if szd = 4 then (lit (1 / 10), 1)
      else if szd = 3 then (lit (1 / 100), 2)
      else (lit (1 / 1000), 3))"

definition tick_of :: "int \<Rightarrow> rat" where
  \<comment> \<open>the tick sizes of the same table, as the decimal fractions they are written as\<close>
  "tick_of szd =
     (if 5 \<le> szd then 1
      else if szd = 4 then 1 / 10
      else if szd = 3 then 1 / 100
      else 1 / 1000)"

definition bias_of :: "side \<Rightarrow> rat" where
  \<comment> \<open>``multiply by 1.002 for a buy and by 0.998 for a sell''\<close>
  "bias_of sd = (case sd of Buy \<Rightarrow> 1002 / 1000 | Sell \<Rightarrow> 998 / 1000)"

definition ticks_of :: "rat \<Rightarrow> side \<Rightarrow> int \<Rightarrow> rat" where
  \<comment> \<open>the biased price counted in ticks\<close>
  "ticks_of p sd szd = p * bias_of sd / tick_of szd"

definition written_with :: "rat \<Rightarrow> nat \<Rightarrow> numeric_string" where
  \<comment> \<open>a number that is not negative, written with \<open>d\<close> fractional digits: the nearest
    decimal of that form\<close>
  "written_with v d = Fixed False (nat \<lfloor>v * 10 ^ d + 1 / 2\<rfloor>) d"

definition quantize_spec :: "rat \<Rightarrow> side \<Rightarrow> int \<Rightarrow> numeric_string" where
  \<comment> \<open>the reference definition of section 4.3 over the rationals: the whole number of
    ticks nearest to the biased price (the larger one from a midpoint), times the tick,
    written with the price decimals of the table\<close>
  "quantize_spec p sd szd =
     (let k = \<lfloor>ticks_of p sd szd + 1 / 2\<rfloor>
      in written_with (of_int k * tick_of szd) (snd (tick_table szd)))"

definition clear_of_midpoints :: "rat \<Rightarrow> bool" where
  \<comment> \<open>a number of ticks \<open>q\<close> lies further than \<open>q / 2 ^ 50\<close>, eight units of double
    rounding, from the midpoints below and above it\<close>
  "clear_of_midpoints q \<longleftrightarrow>
     (let d = q + 1 / 2 - of_int \<lfloor>q + 1 / 2\<rfloor>
      in q / 2 ^ 50 < d \<and> d < 1 - q / 2 ^ 50)"

definition requantize :: "numeric_string \<Rightarrow> side \<Rightarrow> int \<Rightarrow> numeric_string" where
  \<comment> \<open>the quantizer applied to one of its own results: the printed price is parsed again
    (\<^verbatim>\<open>Number::toString\<close> prints a number that parses back to itself)\<close>
  "requantize limitPrice sd szd =
     (case limitPrice of
        Fixed neg n f \<Rightarrow> quantize (parseFloat (fixed_text neg n f)) sd szd
      | ToString a \<Rightarrow> quantize a sd szd)"

subsection \<open>A concrete setting\<close>

text \<open>
  The end-to-end scenario of the specification: a workspace with the secrets \<open>k1\<close> and
  \<open>k2\<close>, a price feed quoting BTC at 50000, BTC listed with five size decimals, and an
  exchange that fills the order at 50010.
\<close>

definition demo_env :: env where
  "demo_env = \<lparr>OPENSERV_API_KEY = Some ''key'', OPENSERV_API_URL = None,
               HYPERLIQUID_TESTNET = Some ''true''\<rparr>"

definition demo_secrets :: "secret list" where
  "demo_secrets = [\<lparr>secret_id = ''1'', secret_name = ''k1''\<rparr>,
                   \<lparr>secret_id = ''2'', secret_name = ''k2''\<rparr>]"

definition demo_filled :: json where
  "demo_filled =
     JObj [(''status'', JStr ''ok''),
           (''response'', JObj [(''type'', JStr ''order''),
              (''data'', JObj [(''statuses'',
                 JArr [JObj [(''filled'', JObj [(''totalSz'', JStr ''0.01''),
                                                (''avgPx'', JStr ''50010''),
                                                (''oid'', JNum 77)])]])])])]"

definition demo_world :: world where
  "demo_world =
     \<lparr>fetch_secrets = (\<lambda>url. Inr \<lparr>ok = True, status = 200, body = Inr demo_secrets\<rparr>),
      fetch_value = (\<lambda>url.
        if url = ''https://api.openserv.ai/workspaces/ws1/agent-secrets/1/value''
        then Inr \<lparr>ok = True, status = 200, body = Inr (quoted ''0xabc'')\<rparr>
        else Inr \<lparr>ok = False, status = 404, body = Inr []\<rparr>),
      new_ExchangeClient = (\<lambda>cl. None),
      allMids = Inr [''BTC'' \<mapsto> ''50000''],
      meta_for_leverage = Inr [\<lparr>asset_name = ''BTC'', szDecimals = 5\<rparr>],
      meta_for_order = Inr [\<lparr>asset_name = ''BTC'', szDecimals = 5\<rparr>],
      updateLeverage = (\<lambda>cl a c l. None),
      order = (\<lambda>cl req. Inr demo_filled)\<rparr>"

definition demo_args :: trade_args where
  "demo_args = \<lparr>coin = ''BTC'', side = Buy, size_arg = ''0.01'', leverage = Some ''5'',
                reduceOnly = None, pk_name = ''k1'', vault_name = None\<rparr>"

definition demo_client :: client where
  "demo_client = \<lparr>wallet = ''0xabc'', defaultVaultAddress = None, isTestnet = True\<rparr>"

section \<open>Properties\<close>

subsection \<open>Rounding to a double\<close>

lemma pow2_powi: "pow2 e = 2 powi e"
  by (simp add: pow2_def power_int_def power_one_over [symmetric] inverse_eq_divide)

lemma pow2_pos [simp]: "0 < pow2 e"
  by (simp add: pow2_powi)

lemma pow2_add: "pow2 (a + b) = pow2 a * pow2 b"
  by (simp add: pow2_powi power_int_add)

lemma pow2_diff: "pow2 (a - b) = pow2 a / pow2 b"
  by (simp add: pow2_powi power_int_diff)

lemma pow2_mono: "a \<le> b \<Longrightarrow> pow2 a \<le> pow2 b"
  by (simp add: pow2_powi power_int_increasing)

lemma pow2_strict_mono: "a < b \<Longrightarrow> pow2 a < pow2 b"
  by (simp add: pow2_powi power_int_strict_increasing)

lemma pow2_nat: "0 \<le> e \<Longrightarrow> pow2 e = 2 ^ nat e"
  by (simp add: pow2_def)

lemma pow2_neg: "0 \<le> e \<Longrightarrow> pow2 (- e) = 1 / 2 ^ nat e"
  by (cases "e = 0") (simp_all add: pow2_def)

lemma ilog2_bounds:
  assumes "0 < x"
  shows "pow2 (ilog2 x) \<le> x \<and> x < pow2 (ilog2 x + 1)"
proof (cases "1 \<le> x")
  case True
  define n where "n = \<lfloor>x\<rfloor>"
  have n1: "1 \<le> n" using True by (simp add: n_def le_floor_iff)
  then have pos: "0 < n" by simp
  have bl: "1 \<le> bitlen n" using pos bitlen_nonneg [of n] bitlen_eq_zero_iff [of n] by linarith
  have b: "2 ^ nat (bitlen n - 1) \<le> n" "n < 2 ^ nat (bitlen n)"
    using bitlen_bounds [OF pos] by simp_all
  have il: "ilog2 x = bitlen n - 1" using True by (simp add: ilog2_def n_def)
  have "pow2 (bitlen n - 1) = of_int (2 ^ nat (bitlen n - 1))"
    using bl by (simp add: pow2_nat)
  also have "\<dots> \<le> of_int n" using b(1) by (simp only: of_int_le_iff)
  also have "\<dots> \<le> x" by (simp add: n_def)
  finally have lo: "pow2 (ilog2 x) \<le> x" by (simp add: il)
  have "n + 1 \<le> 2 ^ nat (bitlen n)" using b(2) by simp
  then have "(of_int (n + 1) :: rat) \<le> of_int (2 ^ nat (bitlen n))" by (simp only: of_int_le_iff)
  moreover have "x < of_int (n + 1)" unfolding n_def using floor_correct [of x] by simp
  ultimately have "x < of_int (2 ^ nat (bitlen n))" by linarith
  also have "\<dots> = pow2 (bitlen n)" using bl by (simp add: pow2_nat)
  finally have "x < pow2 (ilog2 x + 1)" by (simp add: il)
  with lo show ?thesis by simp
next
  case False
  then have x1: "x < 1" by simp
  define c where "c = \<lceil>1 / x\<rceil>"
  have inv: "1 < 1 / x" using assms x1 by (simp add: field_simps)
  have c2: "2 \<le> c" using inv by (simp add: c_def le_ceiling_iff)
  then have pos: "0 < c - 1" by simp
  define k where "k = bitlen (c - 1)"
  have k1: "1 \<le> k" using pos bitlen_nonneg [of "c - 1"] bitlen_eq_zero_iff [of "c - 1"]
    unfolding k_def by linarith
  have b: "2 ^ nat (k - 1) \<le> c - 1" "c - 1 < 2 ^ nat k"
    using bitlen_bounds [OF pos] by (simp_all add: k_def)
  have il: "ilog2 x = - k" using False by (simp add: ilog2_def c_def k_def)
  have "c \<le> 2 ^ nat k" using b(2) by simp
  then have "(of_int c :: rat) \<le> of_int (2 ^ nat k)" by (simp only: of_int_le_iff)
  moreover have "1 / x \<le> of_int c" by (simp add: c_def)
  ultimately have "1 / x \<le> of_int (2 ^ nat k)" by linarith
  then have "1 / x \<le> 2 ^ nat k" by simp
  then have "1 \<le> 2 ^ nat k * x" using assms by (simp add: field_simps)
  then have lo: "pow2 (- k) \<le> x" using k1 by (simp add: pow2_neg field_simps)
  have "(of_int (2 ^ nat (k - 1)) :: rat) \<le> of_int (c - 1)" using b(1) by (simp only: of_int_le_iff)
  moreover have "of_int (c - 1) < 1 / x" unfolding c_def by (simp add: ceiling_correct)
  ultimately have "of_int (2 ^ nat (k - 1)) < 1 / x" by linarith
  then have "2 ^ nat (k - 1) < 1 / x" by simp
  then have "x < 1 / 2 ^ nat (k - 1)" using assms by (simp add: field_simps)
  moreover have "pow2 (- k + 1) = 1 / 2 ^ nat (k - 1)"
    using k1 pow2_neg [of "k - 1"] by simp
  ultimately have "x < pow2 (- k + 1)" by (simp only:)
  with lo show ?thesis by (simp add: il)
qed

lemma ilog2_unique:
  assumes "pow2 e \<le> x" "x < pow2 (e + 1)"
  shows "ilog2 x = e"
proof -
  have pos: "0 < x" using assms(1) pow2_pos [of e] by linarith
  note b = ilog2_bounds [OF pos]
  have "\<not> ilog2 x < e"
  proof
    assume "ilog2 x < e"
    then have "pow2 (ilog2 x + 1) \<le> pow2 e" by (intro pow2_mono) simp
    with b assms show False by linarith
  qed
  moreover have "\<not> e < ilog2 x"
  proof
    assume "e < ilog2 x"
    then have "pow2 (e + 1) \<le> pow2 (ilog2 x)" by (intro pow2_mono) simp
    with b assms show False by linarith
  qed
  ultimately show ?thesis by simp
qed

lemma round_half_even_near: "\<bar>of_int (round_half_even r) - r\<bar> \<le> 1 / 2"
  unfolding round_half_even_def Let_def by (auto simp add: abs_if) linarith+

lemma round_half_even_unique:
  assumes "\<bar>r - of_int m\<bar> < 1 / 2"
  shows "round_half_even r = m"
proof -
  have "\<bar>(of_int (round_half_even r) :: rat) - of_int m\<bar> < 1"
    using round_half_even_near [of r] assms by linarith
  then have "\<bar>(of_int (round_half_even r - m) :: rat)\<bar> < 1" by simp
  then have "\<bar>round_half_even r - m\<bar> < 1" by (simp only: of_int_abs [symmetric] of_int_less_1_iff)
  then show ?thesis by simp
qed

lemma round_half_even_of_int [simp]: "round_half_even (of_int m) = m"
  by (rule round_half_even_unique) simp

lemma pow2_eval:
  "pow2 0 = 1"
  "pow2 1 = 2"
  "pow2 (- 1) = 1 / 2"
  "pow2 (numeral k) = 2 ^ numeral k"
  "pow2 (- numeral k) = 1 / 2 ^ numeral k"
  by (simp_all add: pow2_def)

lemma to_double_cert:
  assumes "pow2 e \<le> x" and "x < pow2 (e + 1)" and "- 1022 \<le> e"
    and "\<bar>x / pow2 (e - 52) - of_int m\<bar> < 1 / 2"
    and "y = of_int m * pow2 (e - 52)" and "y < pow2 1024"
  shows "to_double x = Num y"
proof -
  have pos: "0 < x" using assms(1) pow2_pos [of e] by linarith
  have il: "ilog2 \<bar>x\<bar> = e" using pos assms(1,2) by (simp add: ilog2_unique)
  have r: "round_half_even (\<bar>x\<bar> / pow2 (e - 52)) = m"
    using pos assms(4) by (simp add: round_half_even_unique)
  show ?thesis
    using pos assms(3,5,6) il r by (simp add: to_double_def Let_def max_def)
qed

lemma lit_1002: "lit (501 / 500) = Num (4512606826625237 / 4503599627370496)"
  unfolding lit_def
  by (rule to_double_cert [where e = 0 and m = 4512606826625237]) (simp_all add: pow2_eval)

lemma lit_1: "lit 1 = Num 1"
  unfolding lit_def
  by (rule to_double_cert [where e = 0 and m = 4503599627370496]) (simp_all add: pow2_eval)

lemma q50000_biased: "to_double (14101896333203865625 / 281474976710656) = Num 50100"
  by (rule to_double_cert [where e = "15" and m = 6885691568947200]) (simp_all add: pow2_eval)

lemma to_double_50000: "to_double 50000 = Num 50000"
  by (rule to_double_cert [where e = "15" and m = 6871947673600000]) (simp_all add: pow2_eval)

lemma to_double_50100: "to_double 50100 = Num 50100"
  by (rule to_double_cert [where e = "15" and m = 6885691568947200]) (simp_all add: pow2_eval)

lemma to_double_5: "to_double 5 = Num 5"
  by (rule to_double_cert [where e = "2" and m = 5629499534213120]) (simp_all add: pow2_eval)

lemmas parse_eval = parseFloat_def parseInt_def is_space_def digit_of_def hex_digit_of_def
  digits_value_def pow10_def exponent_part_def Let_def

lemma parseFloat_50000: "parseFloat ''50000'' = Num 50000"
  by (simp add: parse_eval to_double_50000)

lemma js_mul_Num: "js_mul (Num x) (Num y) = to_double (x * y)"
  by (simp add: js_mul_def)

lemma js_div_Num: "y \<noteq> 0 \<Longrightarrow> js_div (Num x) (Num y) = to_double (x / y)"
  by (simp add: js_div_def)

lemma Math_round_Num: "Math_round (Num x) = Num (of_int \<lfloor>x + 1 / 2\<rfloor>)"
  by (simp add: Math_round_def)

lemma toFixed_Num:
  "\<bar>x\<bar> < 10 ^ 21 \<Longrightarrow> toFixed (Num x) f = Fixed (x < 0) (nat \<lfloor>\<bar>x\<bar> * 10 ^ f + 1 / 2\<rfloor>) f"
  by (simp add: toFixed_def)

lemma floor_rat_numeral [simp]:
  "\<lfloor>(numeral a / numeral b :: rat)\<rfloor> = numeral a div numeral b"
  "\<lfloor>(- (numeral a / numeral b) :: rat)\<rfloor> = - numeral a div numeral b"
  using floor_divide_of_int_eq [of "numeral a" "numeral b", where ?'a = rat]
    floor_divide_of_int_eq [of "- numeral a" "numeral b", where ?'a = rat]
  by simp_all

lemmas js_eval = quantize_def Let_def js_mul_Num js_div_Num Math_round_Num toFixed_Num

text \<open>Roundings that the concrete runs below go through.\<close>

lemma lit_998: "lit (499 / 500) = Num (4494592428115755 / 4503599627370496)"
  unfolding lit_def
  by (rule to_double_cert [where e = "- 1" and m = 8989184856231510]) (simp_all add: pow2_eval)

lemma lit_tenth: "lit (1 / 10) = Num (3602879701896397 / 36028797018963968)"
  unfolding lit_def
  by (rule to_double_cert [where e = "- 4" and m = 7205759403792794]) (simp_all add: pow2_eval)

lemma lit_hundredth: "lit (1 / 100) = Num (5764607523034235 / 576460752303423488)"
  unfolding lit_def
  by (rule to_double_cert [where e = "- 7" and m = 5764607523034235]) (simp_all add: pow2_eval)

lemma lit_thousandth: "lit (1 / 1000) = Num (1152921504606847 / 1152921504606846976)"
  unfolding lit_def
  by (rule to_double_cert [where e = "- 10" and m = 4611686018427388]) (simp_all add: pow2_eval)

lemma buy_01002_parsed: "to_double (501 / 5000) = Num (7220170922600379 / 72057594037927936)"
  by (rule to_double_cert [where e = "- 4" and m = 7220170922600379]) (simp_all add: pow2_eval)

lemma buy_01002_biased: "to_double (32581792594727505952720947164823 / 324518553658426726783156020576256) = Num (1808652816111395 / 18014398509481984)"
  by (rule to_double_cert [where e = "- 4" and m = 7234611264445580]) (simp_all add: pow2_eval)

lemma buy_01002_ticks: "to_double (115753780231129280 / 1152921504606847) = Num (7065050062935137 / 70368744177664)"
  by (rule to_double_cert [where e = "6" and m = 7065050062935137]) (simp_all add: pow2_eval)

lemma buy_01002_rounded: "to_double (28823037615171175 / 288230376151711744) = Num (3602879701896397 / 36028797018963968)"
  by (rule to_double_cert [where e = "- 4" and m = 7205759403792794]) (simp_all add: pow2_eval)

lemma sell_00998_parsed: "to_double (499 / 5000) = Num (898918485623151 / 9007199254740992)"
  by (rule to_double_cert [where e = "- 4" and m = 7191347884985208]) (simp_all add: pow2_eval)

lemma sell_00998_biased: "to_double (4040272218975095655403935844005 / 40564819207303340847894502572032) = Num (3588482594607619 / 36028797018963968)"
  by (rule to_double_cert [where e = "- 4" and m = 7176965189215238]) (simp_all add: pow2_eval)

lemma sell_00998_ticks: "to_double (114831443027443808 / 1152921504606847) = Num (3504377533796503 / 35184372088832)"
  by (rule to_double_cert [where e = "6" and m = 7008755067593006]) (simp_all add: pow2_eval)

lemma buy_50100_biased: "to_double (56520400503481093425 / 1125899906842624) = Num (3449731476042547 / 68719476736)"
  by (rule to_double_cert [where e = "15" and m = 6899462952085094]) (simp_all add: pow2_eval)

lemma buy_50100_ticks: "to_double (3449731476042547 / 68719476736) = Num (3449731476042547 / 68719476736)"
  by (rule to_double_cert [where e = "15" and m = 6899462952085094]) (simp_all add: pow2_eval)

lemma buy_50100_rounded: "to_double (50200) = Num (50200)"
  by (rule to_double_cert [where e = "15" and m = 6899435464294400]) (simp_all add: pow2_eval)

lemma to_double_50200: "to_double 50200 = Num 50200"
  by (rule buy_50100_rounded)

lemmas lit_eval = lit_1 lit_1002 lit_998 lit_tenth lit_hundredth lit_thousandth

subsection \<open>Events and results of the stages\<close>

lemma emit_simps:
  "fst (emit evs out) = evs @ fst out"
  "snd (emit evs out) = snd out"
  by (simp_all add: emit_def)

lemma returns_simps: "fst (returns j) = []" "snd (returns j) = Inr j"
  by (simp_all add: returns_def)

lemma throws_simps: "fst (throws e) = []" "snd (throws e) = Inl e"
  by (simp_all add: throws_def)

lemma object_simps:
  "object [] = JObj []"
  "object ((k, Some v) # fs) = JObj ((k, v) # (case object fs of JObj kvs \<Rightarrow> kvs))"
  "object ((k, None) # fs) = object fs"
  by (simp_all add: object_def)

lemma failure_eq: "failure msg = JObj [(''error'', JStr msg), (''success'', JBool False)]"
  by (simp add: failure_def object_def)

lemma clients_of_append: "clients_of (xs @ ys) = clients_of xs @ clients_of ys"
  by (induction xs rule: clients_of.induct) simp_all

lemma orders_of_append: "orders_of (xs @ ys) = orders_of xs @ orders_of ys"
  by (induction xs rule: orders_of.induct) simp_all

lemma on_filled_quiet:
  "clients_of (fst (on_filled args lp st)) = [] \<and> orders_of (fst (on_filled args lp st)) = []"
  by (simp add: on_filled_def emit_simps returns_simps throws_simps split: sum.splits prod.splits)

lemma on_error_quiet:
  "clients_of (fst (on_error args st)) = [] \<and> orders_of (fst (on_error args st)) = []"
  by (simp add: on_error_def returns_simps throws_simps split: sum.splits)

lemma on_resting_quiet:
  "clients_of (fst (on_resting args st)) = [] \<and> orders_of (fst (on_resting args st)) = []"
  by (simp add: on_resting_def returns_simps throws_simps split: sum.splits)

lemma classify_quiet:
  "clients_of (fst (classify args lp res)) = [] \<and> orders_of (fst (classify args lp res)) = []"
  by (simp add: classify_def on_filled_quiet on_error_quiet on_resting_quiet
      returns_simps throws_simps split: sum.splits bool.splits)

lemma place_order_trace:
  "clients_of (fst (place_order w cl args i lp)) = [cl]"
  "orders_of (fst (place_order w cl args i lp)) = [(cl, order_of args i lp)]"
  by (simp_all add: place_order_def order_of_def Let_def emit_simps throws_simps classify_quiet
      split: sum.splits)

lemma price_and_submit_clients:
  "set (clients_of (fst (price_and_submit w cl args cp))) \<subseteq> {cl}"
  by (auto simp add: price_and_submit_def emit_simps throws_simps returns_simps place_order_trace
      split: sum.splits option.splits)

lemma price_and_submit_orders:
  assumes "meta_for_order w = Inr universe"
    and "findIndex (\<lambda>u. asset_name u = coin args) universe = Some i"
  shows "orders_of (fst (price_and_submit w cl args cp)) =
     [(cl, order_of args i (quantize (price_of cp) (side args) (szDecimals (universe ! i))))]"
  using assms by (simp add: price_and_submit_def emit_simps place_order_trace)

lemma on_leverage_error_clients:
  "set (clients_of (fst (on_leverage_error w cl args cp e))) \<subseteq> {cl}"
  using price_and_submit_clients [of w cl args cp]
  by (auto simp add: on_leverage_error_def emit_simps throws_simps split: sum.splits)

lemma adjust_leverage_clients:
  "set (clients_of (fst (adjust_leverage w cl args cp))) \<subseteq> {cl}"
  using price_and_submit_clients [of w cl args cp] on_leverage_error_clients [of w cl args cp]
  by (auto simp add: adjust_leverage_def emit_simps throws_simps returns_simps clients_of_append
      split: sum.splits option.splits)

lemma read_price_clients:
  "set (clients_of (fst (read_price w cl args))) \<subseteq> {cl}"
  using adjust_leverage_clients [of w cl args]
  by (auto simp add: read_price_def emit_simps throws_simps returns_simps clients_of_append
      split: sum.splits option.splits)

lemma with_credentials_clients:
  "set (clients_of (fst (with_credentials w ev args k va))) \<subseteq>
     {\<lparr>wallet = k, defaultVaultAddress = va, isTestnet = (HYPERLIQUID_TESTNET ev = Some ''true'')\<rparr>}"
  using read_price_clients [of w _ args]
  by (auto simp add: with_credentials_def Let_def emit_simps throws_simps clients_of_append
      split: option.splits)

lemma with_credentials_no_vault:
  "cl \<in> set (clients_of (fst (with_credentials w ev args k None))) \<Longrightarrow>
     defaultVaultAddress cl = None"
  using with_credentials_clients [of w ev args k None] by auto

lemma classify_vault:
  "classify (args\<lparr>vault_name := x\<rparr>) lp res = classify args lp res"
proof -
  have "on_filled (args\<lparr>vault_name := x\<rparr>) lp st = on_filled args lp st" for st
    by (simp add: on_filled_def cong: sum.case_cong prod.case_cong if_cong)
  moreover have "on_error (args\<lparr>vault_name := x\<rparr>) st = on_error args st" for st
    by (simp add: on_error_def cong: sum.case_cong if_cong)
  moreover have "on_resting (args\<lparr>vault_name := x\<rparr>) st = on_resting args st" for st
    by (simp add: on_resting_def cong: sum.case_cong if_cong)
  ultimately show ?thesis
    by (simp add: classify_def cong: sum.case_cong bool.case_cong if_cong)
qed

lemma place_order_vault:
  "place_order w cl (args\<lparr>vault_name := x\<rparr>) i lp = place_order w cl args i lp"
  by (simp add: place_order_def classify_vault cong: sum.case_cong)

lemma price_and_submit_vault:
  "price_and_submit w cl (args\<lparr>vault_name := x\<rparr>) cp = price_and_submit w cl args cp"
  by (simp add: price_and_submit_def place_order_vault cong: sum.case_cong option.case_cong)

lemma on_leverage_error_vault:
  "on_leverage_error w cl (args\<lparr>vault_name := x\<rparr>) cp e = on_leverage_error w cl args cp e"
  by (simp add: on_leverage_error_def price_and_submit_vault cong: sum.case_cong if_cong)

lemma adjust_leverage_vault:
  "adjust_leverage w cl (args\<lparr>vault_name := x\<rparr>) cp = adjust_leverage w cl args cp"
  by (simp add: adjust_leverage_def price_and_submit_vault on_leverage_error_vault
      cong: sum.case_cong option.case_cong if_cong)

lemma read_price_vault:
  "read_price w cl (args\<lparr>vault_name := x\<rparr>) = read_price w cl args"
  by (simp add: read_price_def adjust_leverage_vault
      cong: sum.case_cong option.case_cong if_cong)

lemma with_credentials_vault:
  "with_credentials w ev (args\<lparr>vault_name := x\<rparr>) k va = with_credentials w ev args k va"
  by (simp add: with_credentials_def read_price_vault cong: option.case_cong)

lemma resolve_secrets_without_vault:
  assumes "vault_name args = Some v" and "v \<noteq> []"
    and "find (\<lambda>s. secret_name s = v) secrets = None \<or>
         (\<exists>vs vresp. find (\<lambda>s. secret_name s = v) secrets = Some vs \<and>
            fetch_value w (value_url base wid (secret_id vs)) = Inr vresp \<and> \<not> ok vresp)"
  shows "snd (resolve_secrets w ev args base wid secrets) =
         snd (resolve_secrets w ev (args\<lparr>vault_name := None\<rparr>) base wid secrets)"
    and "\<forall>cl \<in> set (clients_of (fst (resolve_secrets w ev args base wid secrets))).
           defaultVaultAddress cl = None"
proof -
  show "snd (resolve_secrets w ev args base wid secrets) =
         snd (resolve_secrets w ev (args\<lparr>vault_name := None\<rparr>) base wid secrets)"
    using assms
    by (auto simp add: resolve_secrets_def Let_def emit_simps with_credentials_vault
        split: option.splits sum.splits)
  show "\<forall>cl \<in> set (clients_of (fst (resolve_secrets w ev args base wid secrets))).
           defaultVaultAddress cl = None"
    using assms
    by (auto simp add: resolve_secrets_def Let_def emit_simps returns_simps throws_simps
        clients_of_append split: option.splits sum.splits dest: with_credentials_no_vault)
qed

lemma leverage_step_throws:
  assumes "leverage args = Some lev" and "lev \<noteq> []"
    and "meta_for_leverage w = Inl e \<or>
         (\<exists>universe i. meta_for_leverage w = Inr universe \<and>
            findIndex (\<lambda>u. asset_name u = coin args) universe = Some i \<and>
            updateLeverage w cl i True (parseInt lev) = Some e)"
  shows "\<exists>before. orders_of before = [] \<and>
           adjust_leverage w cl args cp = emit before (on_leverage_error w cl args cp e)"
proof -
  have "adjust_leverage w cl args cp = emit [Meta] (on_leverage_error w cl args cp e) \<or>
        (\<exists>i. adjust_leverage w cl args cp =
           emit [Meta, UpdateLeverage cl i True (parseInt lev)] (on_leverage_error w cl args cp e))"
    using assms by (auto simp add: adjust_leverage_def emit_def)
  then show ?thesis
  proof
    assume "adjust_leverage w cl args cp = emit [Meta] (on_leverage_error w cl args cp e)"
    moreover have "orders_of [Meta] = []" by simp
    ultimately show ?thesis by blast
  next
    assume "\<exists>i. adjust_leverage w cl args cp =
       emit [Meta, UpdateLeverage cl i True (parseInt lev)] (on_leverage_error w cl args cp e)"
    then obtain i where "adjust_leverage w cl args cp =
       emit [Meta, UpdateLeverage cl i True (parseInt lev)] (on_leverage_error w cl args cp e)" ..
    moreover have "orders_of [Meta, UpdateLeverage cl i True (parseInt lev)] = []" by simp
    ultimately show ?thesis by blast
  qed
qed

lemma demo_limit: "quantize (parseFloat ''50000'') Buy 5 = Fixed False 50100 0"
  by (simp add: parseFloat_50000 js_eval lit_1002 lit_1 q50000_biased to_double_50100)

lemma demo_leverage: "parseInt ''5'' = Num 5"
  by (simp add: parse_eval to_double_5)

lemmas run_eval = run_def run_try_def resolve_secrets_def with_credentials_def read_price_def
  adjust_leverage_def price_and_submit_def place_order_def classify_def first_status_def
  on_filled_def on_error_def on_resting_def malformed_def failure_def on_leverage_error_def
  message_of_def on_exception_def caught_def optional_prop_def is_string_def read_mid_def
  price_of_def single_quoted_def shown_def not_printable_def
  emit_def returns_def throws_def bind_js_def get_prop_def get_index_def has_prop_def truthy_def
  truthy_string_def object_simps secrets_url_def api_base_def value_url_def strip_quotes_def
  quoted_def side_text_def Let_def

lemmas demo_eval = demo_world_def demo_env_def demo_args_def demo_secrets_def demo_filled_def
  demo_client_def demo_limit demo_leverage


lemma resolve_secrets_orders:
  assumes "vault_name args = Some v" and "v \<noteq> []"
    and "find (\<lambda>s. secret_name s = v) secrets = None \<or>
         (\<exists>vs vresp. find (\<lambda>s. secret_name s = v) secrets = Some vs \<and>
            fetch_value w (value_url base wid (secret_id vs)) = Inr vresp \<and> \<not> ok vresp)"
  shows "orders_of (fst (resolve_secrets w ev args base wid secrets)) =
         orders_of (fst (resolve_secrets w ev (args\<lparr>vault_name := None\<rparr>) base wid secrets))"
  using assms
  by (auto simp add: resolve_secrets_def Let_def emit_simps with_credentials_vault orders_of_append
      split: option.splits sum.splits)


subsection \<open>The error of one rounding\<close>

lemma round_half_even_nonneg: "0 \<le> r \<Longrightarrow> 0 \<le> round_half_even r"
proof -
  assume "0 \<le> r"
  then have "- 1 < (of_int (round_half_even r) :: rat)"
    using round_half_even_near [of r] by linarith
  then have "(of_int (- 1) :: rat) < of_int (round_half_even r)" by simp
  then have "- 1 < round_half_even r" by (simp only: of_int_less_iff)
  then show ?thesis by simp
qed

lemma to_double_error:
  assumes "0 < x" and "x \<le> pow2 1023"
  shows "\<exists>y. to_double x = Num y \<and> 0 \<le> y \<and>
           \<bar>y - x\<bar> \<le> pow2 (max (ilog2 x) (- 1022) - 53)"
proof -
  define e where "e = max (ilog2 x) (- 1022)"
  define q where "q = pow2 (e - 52)"
  define m where "m = round_half_even (x / q)"
  define y where "y = of_int m * q"
  have qpos: "0 < q" by (simp add: q_def)
  have half: "q / 2 = pow2 (e - 53)"
    using pow2_add [of "e - 53" 1] by (simp add: q_def pow2_eval)
  have "\<bar>of_int m - x / q\<bar> \<le> 1 / 2"
    unfolding m_def by (rule round_half_even_near)
  then have "\<bar>of_int m - x / q\<bar> * q \<le> 1 / 2 * q"
    using qpos by (intro mult_right_mono) simp_all
  moreover have "\<bar>of_int m - x / q\<bar> * q = \<bar>(of_int m - x / q) * q\<bar>"
    using qpos by (simp add: abs_mult_pos)
  moreover have "(of_int m - x / q) * q = y - x"
    using qpos by (simp add: y_def left_diff_distrib)
  ultimately have err: "\<bar>y - x\<bar> \<le> pow2 (e - 53)"
    using half by simp
  have "0 \<le> x / q" using assms(1) qpos by simp
  then have "0 \<le> m" unfolding m_def by (rule round_half_even_nonneg)
  then have ynn: "0 \<le> y" using qpos by (simp add: y_def)
  have small: "pow2 (e - 53) < pow2 1023"
  proof (cases "- 1022 \<le> ilog2 x")
    case True
    then have "e = ilog2 x" by (simp add: e_def)
    then have "pow2 e \<le> x" using ilog2_bounds [OF assms(1)] by simp
    moreover have "pow2 (e - 53) < pow2 e" by (intro pow2_strict_mono) simp
    ultimately show ?thesis using assms(2) by linarith
  next
    case False
    then have "e = - 1022" by (simp add: e_def)
    then show ?thesis by (simp add: pow2_strict_mono)
  qed
  have "pow2 1024 = 2 * pow2 1023" using pow2_add [of 1023 1] by (simp add: pow2_eval)
  then have "y < pow2 1024" using err small assms(2) by linarith
  then have "to_double x = Num y"
    using assms(1) by (simp add: to_double_def Let_def e_def [symmetric] q_def [symmetric]
        m_def [symmetric] y_def [symmetric])
  with ynn err show ?thesis by (auto simp add: e_def)
qed

lemma to_double_rel:
  assumes "1 / 2 ^ 64 \<le> x" and "x \<le> 2 ^ 64"
  shows "\<exists>y. to_double x = Num y \<and> \<bar>y - x\<bar> \<le> x / 2 ^ 53"
proof -
  have "(0::rat) < 1 / 2 ^ 64" by simp
  then have pos: "0 < x" using assms(1) by linarith
  have "pow2 64 \<le> pow2 1023" by (intro pow2_mono) simp
  then have up: "x \<le> pow2 1023" using assms(2) by (simp add: pow2_eval)
  have "pow2 (- 1022) \<le> pow2 (- 64)" by (intro pow2_mono) simp
  then have low: "pow2 (- 1022) \<le> x" using assms(1) by (simp add: pow2_eval)
  have "\<not> ilog2 x < - 1022"
  proof
    assume "ilog2 x < - 1022"
    then have "pow2 (ilog2 x + 1) \<le> pow2 (- 1022)" by (intro pow2_mono) simp
    with ilog2_bounds [OF pos] low show False by linarith
  qed
  then have e: "max (ilog2 x) (- 1022) = ilog2 x" by simp
  have "pow2 (ilog2 x - 53) = pow2 (ilog2 x) / 2 ^ 53"
    using pow2_diff [of "ilog2 x" 53] by (simp add: pow2_eval)
  also have "\<dots> \<le> x / 2 ^ 53"
    using ilog2_bounds [OF pos] by (simp add: divide_right_mono)
  finally have "pow2 (ilog2 x - 53) \<le> x / 2 ^ 53" .
  with to_double_error [OF pos up] e show ?thesis by fastforce
qed

lemma to_double_upper:
  assumes "0 \<le> x" and "x \<le> 2 ^ 100"
  shows "\<exists>y. to_double x = Num y \<and> 0 \<le> y \<and> y \<le> x + x / 2 ^ 53 + 1 / 2 ^ 64"
proof (cases "x = 0")
  case True
  then show ?thesis by (simp add: to_double_def)
next
  case False
  then have pos: "0 < x" using assms(1) by simp
  have "pow2 100 \<le> pow2 1023" by (intro pow2_mono) simp
  then have up: "x \<le> pow2 1023" using assms(2) by (simp add: pow2_eval)
  have bound: "pow2 (max (ilog2 x) (- 1022) - 53) \<le> x / 2 ^ 53 + 1 / 2 ^ 64"
  proof (cases "- 1022 \<le> ilog2 x")
    case True
    then have e: "max (ilog2 x) (- 1022) = ilog2 x" by simp
    have "pow2 (ilog2 x - 53) = pow2 (ilog2 x) / 2 ^ 53"
      using pow2_diff [of "ilog2 x" 53] by (simp add: pow2_eval)
    also have "\<dots> \<le> x / 2 ^ 53"
      using ilog2_bounds [OF pos] by (simp add: divide_right_mono)
    finally show ?thesis using e by simp
  next
    case False
    then have e: "max (ilog2 x) (- 1022) = - 1022" by simp
    have "pow2 (- 1075) \<le> pow2 (- 64)" by (intro pow2_mono) simp
    then have "pow2 (- 1022 - 53) \<le> 1 / 2 ^ 64" by (simp add: pow2_eval)
    moreover have "0 \<le> x / 2 ^ 53" using assms(1) by simp
    ultimately show ?thesis using e by simp
  qed
  from to_double_error [OF pos up] obtain y where
    y: "to_double x = Num y" "0 \<le> y" "\<bar>y - x\<bar> \<le> pow2 (max (ilog2 x) (- 1022) - 53)"
    by blast
  then have "y \<le> x + x / 2 ^ 53 + 1 / 2 ^ 64" using bound by linarith
  with y show ?thesis by blast
qed


lemma floor_half_bounds:
  assumes "0 \<le> (y :: rat)"
  shows "0 \<le> \<lfloor>y + 1 / 2\<rfloor>" and "of_int \<lfloor>y + 1 / 2\<rfloor> \<le> y + 1 / 2"
  using assms by (simp_all add: le_floor_iff)

lemma ulp_le_thousandth: "0 \<le> (x :: rat) \<Longrightarrow> x / 2 ^ 53 \<le> x / 1000"
  by (intro divide_left_mono) simp_all

lemma quantize_steps_fixed:
  assumes p: "0 < p" "p \<le> 10 ^ 20"
    and c: "0 < c" "c \<le> 2"
    and t: "1 / 1024 \<le> t" "t \<le> 1"
  shows "\<exists>n. toFixed (js_mul (Math_round (js_div (js_mul (Num p) (Num c)) (Num t))) (Num t)) f
           = Fixed False n f"
proof -
  have tpos: "0 < t" using t(1) by linarith
  have tiny: "(1 / 2 ^ 64 :: rat) \<le> 1" by simp
  have big: "(500000000000000000000000 :: rat) \<le> 2 ^ 100" by simp
  define x1 where "x1 = p * c"
  have x1: "0 \<le> x1" "x1 \<le> 200000000000000000000"
  proof -
    show "0 \<le> x1" using p(1) c(1) by (simp add: x1_def)
    have "p * c \<le> 10 ^ 20 * 2" using p c by (intro mult_mono) simp_all
    then show "x1 \<le> 200000000000000000000" by (simp add: x1_def)
  qed
  have "x1 \<le> 2 ^ 100" using x1(2) big by linarith
  from to_double_upper [OF x1(1) this] obtain y1 where
    y1: "to_double x1 = Num y1" "0 \<le> y1" "y1 \<le> x1 + x1 / 2 ^ 53 + 1 / 2 ^ 64"
    by blast
  have y1up: "y1 \<le> 300000000000000000000"
    using y1(3) x1 ulp_le_thousandth [OF x1(1)] tiny by linarith
  define x2 where "x2 = y1 / t"
  have x2: "0 \<le> x2" "x2 \<le> 400000000000000000000000"
  proof -
    show "0 \<le> x2" using y1(2) tpos by (simp add: x2_def)
    have "y1 / t \<le> y1 / (1 / 1024)" using y1(2) t(1) by (intro divide_left_mono) simp_all
    also have "\<dots> = y1 * 1024" by simp
    finally show "x2 \<le> 400000000000000000000000" using y1up by (simp add: x2_def)
  qed
  have "x2 \<le> 2 ^ 100" using x2(2) big by linarith
  from to_double_upper [OF x2(1) this] obtain y2 where
    y2: "to_double x2 = Num y2" "0 \<le> y2" "y2 \<le> x2 + x2 / 2 ^ 53 + 1 / 2 ^ 64"
    by blast
  define r where "r = \<lfloor>y2 + 1 / 2\<rfloor>"
  have r: "0 \<le> r" "of_int r \<le> y2 + 1 / 2"
    using floor_half_bounds [OF y2(2)] by (simp_all add: r_def)
  have "y2 * t \<le> (x2 + x2 / 2 ^ 53 + 1 / 2 ^ 64) * t"
    using y2(3) tpos by (intro mult_right_mono) simp_all
  also have "\<dots> = y1 + y1 / 2 ^ 53 + t / 2 ^ 64"
    using tpos by (simp add: x2_def field_simps)
  finally have y2t: "y2 * t \<le> y1 + y1 / 2 ^ 53 + t / 2 ^ 64" .
  define x3 where "x3 = of_int r * t"
  have "of_int r * t \<le> (y2 + 1 / 2) * t"
    using r(2) tpos by (intro mult_right_mono) simp_all
  also have "\<dots> = y2 * t + t / 2" by (simp add: field_simps)
  finally have "x3 \<le> y2 * t + t / 2" by (simp add: x3_def)
  moreover have "t / 2 ^ 64 \<le> 1" "t / 2 \<le> 1"
    using t(2) tpos by (simp_all add: field_simps)
  ultimately have x3up: "x3 \<le> 400000000000000000000"
    using y2t y1up ulp_le_thousandth [OF y1(2)] by linarith
  have x3: "0 \<le> x3" using r(1) tpos by (simp add: x3_def)
  have "x3 \<le> 2 ^ 100" using x3up big by linarith
  from to_double_upper [OF x3 this] obtain y3 where
    y3: "to_double x3 = Num y3" "0 \<le> y3" "y3 \<le> x3 + x3 / 2 ^ 53 + 1 / 2 ^ 64"
    by blast
  have "y3 \<le> 500000000000000000000"
    using y3(3) x3up ulp_le_thousandth [OF x3] tiny by linarith
  moreover have "(500000000000000000000 :: rat) < 10 ^ 21" by simp
  ultimately have "y3 < 10 ^ 21" by linarith
  then have "\<bar>y3\<bar> < 10 ^ 21" "\<not> y3 < 0" using y3(2) by simp_all
  then show ?thesis
    using tpos y1(1) y2(1) y3(1)
    by (simp add: js_mul_Num js_div_Num Math_round_Num toFixed_Num r_def x1_def x2_def x3_def)
qed

subsection \<open>The quantizer away from overflow\<close>

lemma to_double_overflow:
  assumes "pow2 1024 \<le> x"
  shows "to_double x = PInfinity"
proof -
  have pos: "0 < x" using assms pow2_pos [of 1024] by linarith
  define e where "e = ilog2 x"
  have "\<not> e < 1024"
  proof
    assume "e < 1024"
    then have "pow2 (e + 1) \<le> pow2 1024" by (intro pow2_mono) simp
    with ilog2_bounds [OF pos] assms show False by (simp add: e_def)
  qed
  then have e: "1024 \<le> e" by simp
  then have emax: "max e (- 1022) = e" by simp
  define q where "q = pow2 (e - 52)"
  define m where "m = round_half_even (x / q)"
  have qpos: "0 < q" by (simp add: q_def)
  have "pow2 e = pow2 52 * q" using pow2_add [of 52 "e - 52"] by (simp add: q_def)
  then have "pow2 52 * q \<le> x" using ilog2_bounds [OF pos] by (simp add: e_def)
  then have "pow2 52 \<le> x / q" using qpos by (simp add: pos_le_divide_eq)
  then have big: "4503599627370496 \<le> x / q" by (simp add: pow2_eval)
  have near: "\<bar>of_int m - x / q\<bar> \<le> 1 / 2"
    unfolding m_def by (rule round_half_even_near)
  have "(4503599627370495 :: rat) < of_int m"
    using big near by linarith
  then have "4503599627370495 < m" by simp
  then have "4503599627370496 \<le> m" by simp
  then have "(4503599627370496 :: rat) \<le> of_int m" by simp
  then have "pow2 52 \<le> of_int m" by (simp add: pow2_eval)
  then have "pow2 52 * q \<le> of_int m * q" using qpos by (intro mult_right_mono) simp_all
  then have "pow2 e \<le> of_int m * q" using \<open>pow2 e = pow2 52 * q\<close> by simp
  moreover have "pow2 1024 \<le> pow2 e" using e by (intro pow2_mono)
  ultimately have "pow2 1024 \<le> of_int m * q" by linarith
  then show ?thesis
    using pos emax by (simp add: to_double_def Let_def e_def [symmetric] q_def [symmetric]
        m_def [symmetric])
qed

lemma quantize_fixed:
  assumes "0 < p" and "p \<le> 10 ^ 20"
  shows "\<exists>n. quantize (Num p) sd szd = Fixed False n (snd (tick_table szd))"
proof -
  have "\<exists>n. toFixed (js_mul (Math_round (js_div (js_mul (Num p) (Num c)) (Num t))) (Num t)) f
           = Fixed False n f"
    if "c = 4512606826625237 / 4503599627370496 \<or> c = 4494592428115755 / 4503599627370496"
      and "t = 1 \<or> t = 3602879701896397 / 36028797018963968 \<or>
           t = 5764607523034235 / 576460752303423488 \<or>
           t = 1152921504606847 / 1152921504606846976" for c t f
  proof (rule quantize_steps_fixed [OF assms])
    show "0 < c" "c \<le> 2" using that(1) by auto
    show "1 / 1024 \<le> t" "t \<le> 1" using that(2) by auto
  qed
  then show ?thesis
    by (cases sd) (simp_all add: quantize_def Let_def tick_table_def lit_eval)
qed

lemma js_infinity:
  "Math_round PInfinity = PInfinity"
  "0 < t \<Longrightarrow> js_mul PInfinity (Num t) = PInfinity"
  "toFixed PInfinity f = ToString PInfinity"
  by (simp_all add: Math_round_def js_mul_def sign_of_def inf_of_sign_def toFixed_def)

subsection \<open>Printing a price and parsing it again\<close>

lemma digit_cases: "d < 10 \<Longrightarrow> d \<in> {0, 1, 2, 3, 4, 5, 6, 7, 8, 9 :: nat}"
  by auto

lemma digit_of_digit_char: "d < 10 \<Longrightarrow> digit_of (digit_char d) = Some d"
  by (drule digit_cases) (auto simp add: digit_of_def digit_char_def)

lemma digit_char_plain:
  "d < 10 \<Longrightarrow> \<not> is_space (digit_char d) \<and> digit_char d \<noteq> CHR ''-'' \<and>
     digit_char d \<noteq> CHR ''+'' \<and> digit_char d \<noteq> CHR ''I''"
  by (drule digit_cases) (auto simp add: is_space_def digit_char_def)

lemma decimal_digits:
  "\<exists>ds. decimal n = map digit_char ds \<and> ds \<noteq> [] \<and> (\<forall>d \<in> set ds. d < 10) \<and>
        digits_value 10 ds = n"
proof (induction n rule: decimal.induct)
  case (1 n)
  show ?case
  proof (cases "n < 10")
    case True
    then have "decimal n = map digit_char [n]" by (simp add: decimal.simps)
    then show ?thesis using True by (intro exI [of _ "[n]"]) (simp add: digits_value_def)
  next
    case False
    with 1 obtain ds where ds: "decimal (n div 10) = map digit_char ds" "ds \<noteq> []"
      "\<forall>d \<in> set ds. d < 10" "digits_value 10 ds = n div 10" by blast
    have "decimal n = map digit_char (ds @ [n mod 10])"
      using False ds(1) by (subst decimal.simps) simp
    moreover have "digits_value 10 (ds @ [n mod 10]) = n"
      using ds(4) by (simp add: digits_value_def)
    ultimately show ?thesis using ds(3) by (intro exI [of _ "ds @ [n mod 10]"]) auto
  qed
qed

lemma digits_prefix_digits:
  assumes "\<forall>d \<in> set ds. d < 10" and "r = [] \<or> digit_of (hd r) = None"
  shows "digits_prefix digit_of (map digit_char ds @ r) = (ds, r)"
  using assms
proof (induction ds)
  case Nil
  then show ?case by (cases r) auto
next
  case (Cons d ds)
  then show ?case by (simp add: digit_of_digit_char)
qed

lemma digits_value_append:
  "digits_value 10 (xs @ ys) = digits_value 10 xs * 10 ^ length ys + digits_value 10 ys"
proof (induction ys rule: rev_induct)
  case Nil
  then show ?case by (simp add: digits_value_def)
next
  case (snoc y ys)
  have "digits_value 10 (xs @ ys @ [y]) = 10 * digits_value 10 (xs @ ys) + y"
    by (simp add: digits_value_def)
  also have "\<dots> = 10 * (digits_value 10 xs * 10 ^ length ys + digits_value 10 ys) + y"
    by (simp add: snoc.IH)
  also have "\<dots> = digits_value 10 xs * 10 ^ length (ys @ [y]) + digits_value 10 (ys @ [y])"
    by (simp add: digits_value_def algebra_simps)
  finally show ?case by simp
qed

lemma digits_value_zeros: "digits_value 10 (replicate k 0 @ ds) = digits_value 10 ds"
proof -
  have "digits_value 10 (replicate k 0) = 0"
    by (induction k) (simp_all add: digits_value_def)
  then show ?thesis by (simp add: digits_value_append)
qed


lemma exponent_part_Nil: "exponent_part [] = 0"
  by (simp add: exponent_part_def)

lemma pow10_neg: "pow10 (- int f) = 1 / 10 ^ f"
  by (cases "f = 0") (simp_all add: pow10_def)

lemma parseFloat_digits:
  assumes "\<forall>d \<in> set a. d < 10" and "a \<noteq> []" and "\<forall>d \<in> set b. d < 10"
  shows "parseFloat (map digit_char a @ (if b = [] then [] else CHR ''.'' # map digit_char b)) =
           to_double (of_nat (digits_value 10 (a @ b)) / 10 ^ length b)"
    and "parseFloat (CHR ''-'' # map digit_char a @ (if b = [] then [] else CHR ''.'' # map digit_char b)) =
           to_double (- (of_nat (digits_value 10 (a @ b)) / 10 ^ length b))"
proof -
  let ?t = "map digit_char a @ (if b = [] then [] else CHR ''.'' # map digit_char b)"
  obtain d a' where a: "a = d # a'" using assms(2) by (cases a) auto
  then have d: "d < 10" using assms(1) by simp
  have hd_t: "?t = digit_char d # (map digit_char a' @ (if b = [] then [] else CHR ''.'' # map digit_char b))"
    by (simp add: a)
  have nosp: "dropWhile is_space ?t = ?t"
    unfolding hd_t using digit_char_plain [OF d] by simp
  have sign: "strip_sign ?t = (False, ?t)"
    unfolding hd_t using digit_char_plain [OF d] by simp
  have noinf: "take 8 ?t \<noteq> ''Infinity''"
    unfolding hd_t using digit_char_plain [OF d] by simp
  have dot: "digit_of CHR ''.'' = None" by (simp add: digit_of_def)
  have ip: "digits_prefix digit_of ?t = (a, if b = [] then [] else CHR ''.'' # map digit_char b)"
    using assms(1) dot by (intro digits_prefix_digits) auto
  have fp: "digits_prefix digit_of (map digit_char b) = (b, [])"
    using digits_prefix_digits [of b "[]"] assms(3) by simp
  have body: "(case strip_sign ?t of
        (neg, t) \<Rightarrow>
          (if take 8 t = ''Infinity'' then (if neg then NInfinity else PInfinity)
           else case digits_prefix digit_of t of
             (ip, r1) \<Rightarrow>
               (case (case r1 of [] \<Rightarrow> ([], r1)
                      | c # cs \<Rightarrow> (if c = CHR ''.'' then digits_prefix digit_of cs else ([], r1))) of
                  (fp, r2) \<Rightarrow>
                    (if ip = [] \<and> fp = [] then NaN
                     else let v = of_nat (digits_value 10 (ip @ fp))
                                    * pow10 (exponent_part r2 - int (length fp))
                          in to_double (if neg then - v else v))))) =
     to_double (of_nat (digits_value 10 (a @ b)) / 10 ^ length b)"
    using assms(2) noinf
    by (simp add: sign ip fp exponent_part_Nil pow10_neg Let_def pow10_def)
  show "parseFloat ?t = to_double (of_nat (digits_value 10 (a @ b)) / 10 ^ length b)"
    unfolding parseFloat_def nosp by (rule body)
  have minus: "dropWhile is_space (CHR ''-'' # ?t) = CHR ''-'' # ?t"
    by (simp add: is_space_def)
  show "parseFloat (CHR ''-'' # ?t) =
          to_double (- (of_nat (digits_value 10 (a @ b)) / 10 ^ length b))"
    unfolding parseFloat_def minus using assms(2) noinf
    by (simp add: ip fp exponent_part_Nil pow10_neg Let_def pow10_def)
qed


lemma parseFloat_fixed_text:
  "parseFloat (fixed_text neg n f) = to_double ((if neg then - 1 else 1) * of_nat n / 10 ^ f)"
proof -
  obtain ds where ds: "decimal n = map digit_char ds" "ds \<noteq> []" "\<forall>d \<in> set ds. d < 10"
    "digits_value 10 ds = n" using decimal_digits by blast
  define zs where "zs = (if f = 0 then ds else replicate (Suc f - length ds) 0 @ ds)"
  define a where "a = take (length zs - f) zs"
  define b where "b = drop (length zs - f) zs"
  have zero: "CHR ''0'' = digit_char 0" by (simp add: digit_char_def)
  have zs: "\<forall>d \<in> set zs. d < 10" "digits_value 10 zs = n" "f < length zs"
    using ds by (auto simp add: zs_def digits_value_zeros)
  have ab: "a @ b = zs" "a \<noteq> []" "length b = f" "\<forall>d \<in> set a. d < 10" "\<forall>d \<in> set b. d < 10"
    using zs by (auto simp add: a_def b_def dest: in_set_takeD in_set_dropD)
  have shape: "fixed_text neg n f = (if neg then ''-'' else []) @
      map digit_char a @ (if b = [] then [] else CHR ''.'' # map digit_char b)"
  proof (cases "f = 0")
    case True
    then show ?thesis
      using ab(1,3) ds(1) by (simp add: fixed_text_def zs_def)
  next
    case False
    have z: "replicate (Suc f - length (decimal n)) CHR ''0'' @ decimal n = map digit_char zs"
      using False by (simp add: zs_def ds(1) zero map_replicate)
    have "b \<noteq> []" using False ab(3) by auto
    then show ?thesis
      unfolding fixed_text_def Let_def z using False
      by (simp add: a_def b_def take_map drop_map)
  qed
  have val: "(of_nat (digits_value 10 (a @ b)) :: rat) / 10 ^ length b = of_nat n / 10 ^ f"
    by (simp add: ab(1,3) zs(2))
  note pf = parseFloat_digits [OF ab(4) ab(2) ab(5), unfolded val]
  show ?thesis
  proof (cases neg)
    case True
    then show ?thesis using shape pf(2) by simp
  next
    case False
    then show ?thesis using shape pf(1) by simp
  qed
qed

subsection \<open>The quantizer on its own small results\<close>

lemma toFixed_digits: "toFixed a f' = Fixed neg n f \<Longrightarrow> f = f'"
  by (auto simp add: toFixed_def split: js_number.splits if_splits)

lemma to_double_rel_loose:
  assumes "1 / 18446744073709551616 \<le> x" and "x \<le> 18446744073709551616"
  shows "\<exists>y. to_double x = Num y \<and> x - x / 100000000 \<le> y \<and> y \<le> x + x / 100000000"
proof -
  from to_double_rel [of x] assms obtain y where
    y: "to_double x = Num y" "\<bar>y - x\<bar> \<le> x / 2 ^ 53" by auto
  have "0 \<le> x" using assms(1) by simp
  then have "x / 2 ^ 53 \<le> x / 100000000" by (intro divide_left_mono) simp_all
  then have "x - x / 100000000 \<le> y \<and> y \<le> x + x / 100000000" using y(2) by linarith
  with y(1) show ?thesis by blast
qed

lemma requantize_steps:
  fixes c t :: rat and f n :: nat
  assumes n: "1 \<le> n" "n < 250"
    and c: "c = 4512606826625237 / 4503599627370496 \<or> c = 4494592428115755 / 4503599627370496"
    and t: "(t = 1 \<and> f = 0) \<or>
            (t = 3602879701896397 / 36028797018963968 \<and> f = 1) \<or>
            (t = 5764607523034235 / 576460752303423488 \<and> f = 2) \<or>
            (t = 1152921504606847 / 1152921504606846976 \<and> f = 3)"
  shows "toFixed (js_mul (Math_round (js_div (js_mul (to_double (of_nat n / 10 ^ f)) (Num c))
           (Num t))) (Num t)) f = Fixed False n f"
proof -
  define N :: rat where "N = of_nat n"
  define T :: rat where "T = 10 ^ f"
  define ti :: rat where "ti = 1 / t"
  have N: "1 \<le> N" "N \<le> 249" using n by (simp_all add: N_def)
  have T4: "T = 1 \<or> T = 10 \<or> T = 100 \<or> T = 1000"
    unfolding T_def using t by (elim disjE conjE; hypsubst; simp)
  have tpos: "0 < t" using t by auto
  have div_t: "y / t = y * ti" for y by (simp add: ti_def)
  have cb: "99799999 / 100000000 \<le> c" "c \<le> 100200001 / 100000000"
    using c by auto
  have tb: "99999999 / 100000000 / T \<le> t" "t \<le> 100000001 / 100000000 / T"
    unfolding T_def using t by (elim disjE conjE; hypsubst; simp)+
  have tib: "T * (99999999 / 100000000) \<le> ti" "ti \<le> T * (100000001 / 100000000)"
    unfolding T_def ti_def using t by (elim disjE conjE; hypsubst; simp)+
  \<comment> \<open>the price read back\<close>
  define v where "v = N / T"
  have "1 / 18446744073709551616 \<le> v \<and> v \<le> 18446744073709551616"
    unfolding v_def using N T4 by (elim disjE; hypsubst; intro conjI; linarith)
  then obtain y0 where y0: "to_double v = Num y0"
      "v - v / 100000000 \<le> y0" "y0 \<le> v + v / 100000000"
    using to_double_rel_loose [of v] by blast
  have y0b: "N * (99999999 / 100000000) \<le> y0 * T" "y0 * T \<le> N * (100000001 / 100000000)"
    using y0(2,3) N T4 unfolding v_def by (elim disjE; hypsubst; linarith)+
  have y0pos: "0 \<le> y0" using y0(2) N T4 unfolding v_def by (elim disjE; hypsubst; linarith)
  \<comment> \<open>the bias\<close>
  define x1 where "x1 = y0 * c"
  have x1b: "y0 * (99799999 / 100000000) \<le> x1" "x1 \<le> y0 * (100200001 / 100000000)"
    unfolding x1_def using cb y0pos by (intro mult_left_mono; simp)+
  have "1 / 18446744073709551616 \<le> x1 \<and> x1 \<le> 18446744073709551616"
    using x1b y0b N T4 by (elim disjE; hypsubst; intro conjI; linarith)
  then obtain y1 where y1: "to_double x1 = Num y1"
      "x1 - x1 / 100000000 \<le> y1" "y1 \<le> x1 + x1 / 100000000"
    using to_double_rel_loose [of x1] by blast
  have y1pos: "0 \<le> y1" using y1(2) x1b y0pos by linarith
  \<comment> \<open>the number of ticks\<close>
  define x2 where "x2 = y1 * ti"
  have x2b: "y1 * (T * (99999999 / 100000000)) \<le> x2" "x2 \<le> y1 * (T * (100000001 / 100000000))"
    unfolding x2_def using tib y1pos by (intro mult_left_mono; simp)+
  have x2N: "N * (997 / 1000) \<le> x2" "x2 \<le> N * (1003 / 1000)"
    using x2b y1(2,3) x1b y0b N T4 by (elim disjE; hypsubst; linarith)+
  have "1 / 18446744073709551616 \<le> x2 \<and> x2 \<le> 18446744073709551616"
    using x2N N by (intro conjI; linarith)
  then obtain y2 where y2: "to_double x2 = Num y2"
      "x2 - x2 / 100000000 \<le> y2" "y2 \<le> x2 + x2 / 100000000"
    using to_double_rel_loose [of x2] by blast
  have "N \<le> y2 + 1 / 2 \<and> y2 + 1 / 2 < N + 1"
    using y2(2,3) x2b y1(2,3) x1b y0b N T4 by (elim disjE; hypsubst; intro conjI; linarith)
  then have r: "\<lfloor>y2 + 1 / 2\<rfloor> = int n"
    by (intro floor_unique) (simp_all add: N_def)
  \<comment> \<open>back to a price\<close>
  define x3 where "x3 = N * t"
  have x3b: "N * (99999999 / 100000000 / T) \<le> x3" "x3 \<le> N * (100000001 / 100000000 / T)"
    unfolding x3_def using tb N by (intro mult_left_mono; simp)+
  have "1 / 18446744073709551616 \<le> x3 \<and> x3 \<le> 18446744073709551616"
    using x3b N T4 by (elim disjE; hypsubst; intro conjI; linarith)
  then obtain y3 where y3: "to_double x3 = Num y3"
      "x3 - x3 / 100000000 \<le> y3" "y3 \<le> x3 + x3 / 100000000"
    using to_double_rel_loose [of x3] by blast
  have fin: "N \<le> y3 * T + 1 / 2 \<and> y3 * T + 1 / 2 < N + 1 \<and> 0 \<le> y3 \<and> y3 < 1000"
    using y3(2,3) x3b N T4 by (elim disjE; hypsubst; intro conjI; linarith)
  then have n': "\<lfloor>y3 * T + 1 / 2\<rfloor> = int n"
    by (intro floor_unique) (simp_all add: N_def)
  have "\<bar>y3\<bar> < 10 ^ 21" "\<not> y3 < 0" using fin by simp_all
  then show ?thesis
    using tpos y0(1) y1(1) y2(1) y3(1) r n'
    by (simp add: js_mul_Num js_div_Num Math_round_Num toFixed_Num N_def T_def div_t
        v_def x1_def x2_def x3_def)
qed


lemma to_double_100: "to_double 100 = Num 100"
  by (rule to_double_cert [where e = "6" and m = 7036874417766400]) (simp_all add: pow2_eval)

lemma buy_100_biased:
  "to_double (112815170665630925 / 1125899906842624) = Num (7050948166601933 / 70368744177664)"
  by (rule to_double_cert [where e = "6" and m = 7050948166601933]) (simp_all add: pow2_eval)

lemma buy_100_ticks:
  "to_double (7050948166601933 / 70368744177664) = Num (7050948166601933 / 70368744177664)"
  by (rule to_double_cert [where e = "6" and m = 7050948166601933]) (simp_all add: pow2_eval)

lemma quantize_digits:
  assumes "quantize a sd szd = Fixed neg n f"
  shows "f = snd (tick_table szd)"
  using assms
  by (auto simp add: quantize_def Let_def tick_table_def dest: toFixed_digits split: if_splits)

lemma floor_half_rat [simp]: "\<lfloor>(1 / 2 :: rat)\<rfloor> = 0"
  by (rule floor_unique) simp_all

lemma to_double_0: "to_double 0 = Num 0"
  by (simp add: to_double_def)

lemma requantize_zero:
  assumes "0 < t"
  shows "toFixed (js_mul (Math_round (js_div (js_mul (to_double 0) (Num c)) (Num t))) (Num t)) f
           = Fixed False 0 f"
  using assms by (simp add: to_double_0 js_mul_Num js_div_Num Math_round_Num toFixed_Num)

lemma requantize_fixed_point:
  assumes "n < 250"
  shows "quantize (to_double (of_nat n / 10 ^ snd (tick_table szd))) sd szd =
           Fixed False n (snd (tick_table szd))"
proof -
  have step: "toFixed (js_mul (Math_round (js_div (js_mul (to_double (of_nat n / 10 ^ f)) (Num c))
           (Num t))) (Num t)) f = Fixed False n f"
    if "c = 4512606826625237 / 4503599627370496 \<or> c = 4494592428115755 / 4503599627370496"
      and "(t = 1 \<and> f = 0) \<or>
            (t = 3602879701896397 / 36028797018963968 \<and> f = 1) \<or>
            (t = 5764607523034235 / 576460752303423488 \<and> f = 2) \<or>
            (t = 1152921504606847 / 1152921504606846976 \<and> f = 3)" for c t f
  proof (cases "n = 0")
    case True
    have "0 < t" using that(2) by auto
    then show ?thesis using True requantize_zero [of t c f] by simp
  next
    case False
    then have "1 \<le> n" by simp
    then show ?thesis using assms that by (rule requantize_steps)
  qed
  note s0 = step [of _ 1 0, simplified]
    and s1 = step [of _ "3602879701896397 / 36028797018963968" 1, simplified]
    and s2 = step [of _ "5764607523034235 / 576460752303423488" 2, simplified]
    and s3 = step [of _ "1152921504606847 / 1152921504606846976" 3, simplified]
  show ?thesis
    by (cases sd) (simp_all add: quantize_def Let_def tick_table_def lit_eval s0 s1 s2 s3)
qed

subsection \<open>The quantizer against exact rounding\<close>

lemma to_double_within:
  assumes "1 / 18446744073709551616 \<le> x" and "x \<le> 18446744073709551616"
  shows "\<exists>y. to_double x = Num y \<and>
           x * (9007199254740991 / 9007199254740992) \<le> y \<and>
           y \<le> x * (9007199254740993 / 9007199254740992)"
proof -
  from to_double_rel [of x] assms obtain y where
    y: "to_double x = Num y" "\<bar>y - x\<bar> \<le> x / 2 ^ 53" by auto
  have "x / 2 ^ 53 = x / 9007199254740992" by simp
  with y(2) have "x * (9007199254740991 / 9007199254740992) \<le> y \<and>
      y \<le> x * (9007199254740993 / 9007199254740992)"
    by linarith
  with y(1) show ?thesis by blast
qed

lemma to_double_small:
  assumes "0 \<le> x" and "x \<le> 1"
  shows "\<exists>y. to_double x = Num y \<and> 0 \<le> y \<and>
           y \<le> x * (9007199254740993 / 9007199254740992) + 1 / 18446744073709551616"
proof -
  have "x \<le> 2 ^ 100" using assms(2) by simp
  from to_double_upper [OF assms(1) this] obtain y where
    y: "to_double x = Num y" "0 \<le> y" "y \<le> x + x / 2 ^ 53 + 1 / 2 ^ 64" by blast
  have "x / 2 ^ 53 = x / 9007199254740992" "(1 / 2 ^ 64 :: rat) = 1 / 18446744073709551616"
    by simp_all
  with y(3) have "y \<le> x * (9007199254740993 / 9007199254740992) + 1 / 18446744073709551616"
    by linarith
  with y(1,2) show ?thesis by blast
qed

lemma quantize_steps_below_first_midpoint:
  fixes p c c' t :: rat and f :: nat
  assumes p: "0 < p"
    and c: "(c' = 4512606826625237 / 4503599627370496 \<and> c = 1002 / 1000) \<or>
            (c' = 4494592428115755 / 4503599627370496 \<and> c = 998 / 1000)"
    and t: "(t = 1 \<and> f = 0) \<or>
            (t = 3602879701896397 / 36028797018963968 \<and> f = 1) \<or>
            (t = 5764607523034235 / 576460752303423488 \<and> f = 2) \<or>
            (t = 1152921504606847 / 1152921504606846976 \<and> f = 3)"
    and q: "p * c * 10 ^ f < 1 / 4"
  shows "toFixed (js_mul (Math_round (js_div (js_mul (Num p) (Num c')) (Num t))) (Num t)) f
           = Fixed False 0 f"
proof -
  define T :: rat where "T = 10 ^ f"
  define ti :: rat where "ti = 1 / t"
  have T4: "T = 1 \<or> T = 10 \<or> T = 100 \<or> T = 1000"
    unfolding T_def using t by (elim disjE conjE; hypsubst; simp)
  have tpos: "0 < t" using t by auto
  have div_t: "y / t = y * ti" for y by (simp add: ti_def)
  have c2: "c = 1002 / 1000 \<or> c = 998 / 1000" using c by auto
  have cb: "0 \<le> c'" "c' \<le> c * (9007199254740993 / 9007199254740992)"
    using c by auto
  have tib: "0 \<le> ti" "ti \<le> T * (9007199254740993 / 9007199254740992)"
    unfolding T_def ti_def using t by (elim disjE conjE; hypsubst; simp)+
  have Q: "p * c * T < 1 / 4" using q by (simp add: T_def)
  define x1 where "x1 = p * c'"
  have x1: "0 \<le> x1" "x1 \<le> p * (c * (9007199254740993 / 9007199254740992))"
  proof -
    show "0 \<le> x1" unfolding x1_def using p cb(1) by simp
    show "x1 \<le> p * (c * (9007199254740993 / 9007199254740992))"
      unfolding x1_def using cb(2) p by (intro mult_left_mono) simp_all
  qed
  have "x1 \<le> 1"
    using x1(2) Q p c2 T4 by (elim disjE; hypsubst; linarith)
  from to_double_small [OF x1(1) this] obtain y1 where
    y1: "to_double x1 = Num y1" "0 \<le> y1"
      "y1 \<le> x1 * (9007199254740993 / 9007199254740992) + 1 / 18446744073709551616"
    by blast
  define x2 where "x2 = y1 * ti"
  have x2: "0 \<le> x2" "x2 \<le> y1 * (T * (9007199254740993 / 9007199254740992))"
  proof -
    show "0 \<le> x2" unfolding x2_def using y1(2) tib(1) by simp
    show "x2 \<le> y1 * (T * (9007199254740993 / 9007199254740992))"
      unfolding x2_def using tib(2) y1(2) by (intro mult_left_mono)
  qed
  have x2Q: "x2 \<le> 1 / 3"
    using x2(2) y1(3) x1(2) Q p c2 T4 by (elim disjE; hypsubst; linarith)
  then have "x2 \<le> 1" by simp
  from to_double_small [OF x2(1) this] obtain y2 where
    y2: "to_double x2 = Num y2" "0 \<le> y2"
      "y2 \<le> x2 * (9007199254740993 / 9007199254740992) + 1 / 18446744073709551616"
    by blast
  have "0 \<le> y2 + 1 / 2 \<and> y2 + 1 / 2 < 1" using y2(2,3) x2Q by linarith
  then have r: "\<lfloor>y2 + 1 / 2\<rfloor> = 0"
    by (intro floor_unique) simp_all
  show ?thesis
    using tpos y1(1) y2(1) r
    by (simp add: js_mul_Num js_div_Num Math_round_Num toFixed_Num div_t x1_def x2_def
        to_double_0)
qed

lemma quantize_steps_nearest:
  fixes p c c' t :: rat and f :: nat and k :: int
  assumes p: "0 < p"
    and c: "(c' = 4512606826625237 / 4503599627370496 \<and> c = 1002 / 1000) \<or>
            (c' = 4494592428115755 / 4503599627370496 \<and> c = 998 / 1000)"
    and t: "(t = 1 \<and> f = 0) \<or>
            (t = 3602879701896397 / 36028797018963968 \<and> f = 1) \<or>
            (t = 5764607523034235 / 576460752303423488 \<and> f = 2) \<or>
            (t = 1152921504606847 / 1152921504606846976 \<and> f = 3)"
    and q: "1 / 4 \<le> p * c * 10 ^ f"
    and k: "of_int k \<le> p * c * 10 ^ f + 1 / 2" "p * c * 10 ^ f + 1 / 2 < of_int k + 1"
    and clear: "p * c * 10 ^ f / 2 ^ 50 < p * c * 10 ^ f + 1 / 2 - of_int k"
      "p * c * 10 ^ f + 1 / 2 - of_int k < 1 - p * c * 10 ^ f / 2 ^ 50"
  shows "toFixed (js_mul (Math_round (js_div (js_mul (Num p) (Num c')) (Num t))) (Num t)) f
           = Fixed False (nat k) f"
proof -
  define T :: rat where "T = 10 ^ f"
  define ti :: rat where "ti = 1 / t"
  define K :: rat where "K = of_int k"
  have T4: "T = 1 \<or> T = 10 \<or> T = 100 \<or> T = 1000"
    unfolding T_def using t by (elim disjE conjE; hypsubst; simp)
  have tpos: "0 < t" using t by auto
  have div_t: "y / t = y * ti" for y by (simp add: ti_def)
  have c2: "c = 1002 / 1000 \<or> c = 998 / 1000" using c by auto
  have cb: "c * (9007199254740991 / 9007199254740992) \<le> c'"
      "c' \<le> c * (9007199254740993 / 9007199254740992)"
    using c by auto
  have tb: "9007199254740991 / 9007199254740992 / T \<le> t"
      "t \<le> 9007199254740993 / 9007199254740992 / T"
    unfolding T_def using t by (elim disjE conjE; hypsubst; simp)+
  have tib: "T * (9007199254740991 / 9007199254740992) \<le> ti"
      "ti \<le> T * (9007199254740993 / 9007199254740992)"
    unfolding T_def ti_def using t by (elim disjE conjE; hypsubst; simp)+
  have Q: "1 / 4 \<le> p * c * T" using q by (simp add: T_def)
  have kb: "K \<le> p * c * T + 1 / 2" "p * c * T + 1 / 2 < K + 1"
    using k by (simp_all add: T_def K_def)
  have "(2 :: rat) ^ 50 = 1125899906842624" by simp
  then have cl: "p * c * T / 1125899906842624 < p * c * T + 1 / 2 - K"
      "p * c * T + 1 / 2 - K < 1 - p * c * T / 1125899906842624"
    using clear by (simp_all only: T_def K_def)
  \<comment> \<open>the bias\<close>
  define x1 where "x1 = p * c'"
  have x1b: "p * (c * (9007199254740991 / 9007199254740992)) \<le> x1"
      "x1 \<le> p * (c * (9007199254740993 / 9007199254740992))"
    unfolding x1_def using cb p by (intro mult_left_mono; simp)+
  have "1 / 18446744073709551616 \<le> x1 \<and> x1 \<le> 18446744073709551616"
    using x1b Q kb cl p c2 T4 by (elim disjE; hypsubst; intro conjI; linarith)
  then obtain y1 where y1: "to_double x1 = Num y1"
      "x1 * (9007199254740991 / 9007199254740992) \<le> y1"
      "y1 \<le> x1 * (9007199254740993 / 9007199254740992)"
    using to_double_within [of x1] by blast
  have y1pos: "0 \<le> y1"
    using y1(2) x1b(1) p c2 by (elim disjE; hypsubst; linarith)
  \<comment> \<open>the number of ticks\<close>
  define x2 where "x2 = y1 * ti"
  have x2b: "y1 * (T * (9007199254740991 / 9007199254740992)) \<le> x2"
      "x2 \<le> y1 * (T * (9007199254740993 / 9007199254740992))"
    unfolding x2_def using tib y1pos by (intro mult_left_mono; simp)+
  have "1 / 18446744073709551616 \<le> x2 \<and> x2 \<le> 18446744073709551616"
    using x2b y1(2,3) x1b Q kb cl p c2 T4 by (elim disjE; hypsubst; intro conjI; linarith)
  then obtain y2 where y2: "to_double x2 = Num y2"
      "x2 * (9007199254740991 / 9007199254740992) \<le> y2"
      "y2 \<le> x2 * (9007199254740993 / 9007199254740992)"
    using to_double_within [of x2] by blast
  have "K \<le> y2 + 1 / 2 \<and> y2 + 1 / 2 < K + 1"
    using y2(2,3) x2b y1(2,3) x1b Q kb cl p c2 T4
    by (elim disjE; hypsubst; intro conjI; linarith)
  then have r: "\<lfloor>y2 + 1 / 2\<rfloor> = k"
    by (intro floor_unique) (simp_all add: K_def)
  have Kb: "0 \<le> K" "K \<le> 1125899906842625"
  proof -
    have "- 1 < K \<and> K < 1125899906842625"
      using Q kb cl p c2 T4 by (elim disjE; hypsubst; intro conjI; linarith)
    then have "(of_int (- 1) :: rat) < of_int k" "(of_int k :: rat) < of_int 1125899906842625"
      by (simp_all add: K_def)
    then have "- 1 < k" "k < 1125899906842625" by (simp_all only: of_int_less_iff)
    then show "0 \<le> K" "K \<le> 1125899906842625" by (simp_all add: K_def)
  qed
  show ?thesis
  proof (cases "k = 0")
    case True
    then show ?thesis
      using tpos y1(1) y2(1) r
      by (simp add: js_mul_Num js_div_Num Math_round_Num toFixed_Num div_t x1_def x2_def
          to_double_0)
  next
    case False
    then have "1 \<le> k" using Kb(1) by (simp add: K_def)
    then have K1: "1 \<le> K" by (simp add: K_def)
    \<comment> \<open>back to a price\<close>
    define x3 where "x3 = K * t"
    have x3b: "K * (9007199254740991 / 9007199254740992 / T) \<le> x3"
        "x3 \<le> K * (9007199254740993 / 9007199254740992 / T)"
      unfolding x3_def using tb Kb(1) by (intro mult_left_mono; simp)+
    have "1 / 18446744073709551616 \<le> x3 \<and> x3 \<le> 18446744073709551616"
      using x3b K1 Kb(2) T4 by (elim disjE; hypsubst; intro conjI; linarith)
    then obtain y3 where y3: "to_double x3 = Num y3"
        "x3 * (9007199254740991 / 9007199254740992) \<le> y3"
        "y3 \<le> x3 * (9007199254740993 / 9007199254740992)"
      using to_double_within [of x3] by blast
    have fin: "K \<le> y3 * T + 1 / 2 \<and> y3 * T + 1 / 2 < K + 1 \<and> 0 \<le> y3 \<and>
        y3 < 1000000000000000000000"
      using y3(2,3) x3b K1 Kb(2) T4 by (elim disjE; hypsubst; intro conjI; linarith)
    then have n': "\<lfloor>y3 * T + 1 / 2\<rfloor> = k"
      by (intro floor_unique) (simp_all add: K_def)
    have "\<bar>y3\<bar> < 10 ^ 21" "\<not> y3 < 0" using fin by simp_all
    then show ?thesis
      using tpos y1(1) y2(1) y3(1) r n'
      by (simp add: js_mul_Num js_div_Num Math_round_Num toFixed_Num K_def T_def div_t
          x1_def x2_def x3_def)
  qed
qed

lemma clear_of_midpoints_iff:
  "clear_of_midpoints q \<longleftrightarrow>
     q / 2 ^ 50 < q + 1 / 2 - of_int \<lfloor>q + 1 / 2\<rfloor> \<and>
     q + 1 / 2 - of_int \<lfloor>q + 1 / 2\<rfloor> < 1 - q / 2 ^ 50"
  by (simp only: clear_of_midpoints_def Let_def)

lemma clear_of_midpoints_bound:
  assumes "clear_of_midpoints q"
  shows "q < 2 ^ 49"
proof -
  have "(2 :: rat) ^ 50 = 1125899906842624" "(2 :: rat) ^ 49 = 562949953421312" by simp_all
  with assms show ?thesis
    by (simp only: clear_of_midpoints_iff) linarith
qed

lemma quantize_steps_reference:
  fixes p c c' t :: rat and f :: nat
  assumes p: "0 < p"
    and c: "(c' = 4512606826625237 / 4503599627370496 \<and> c = 1002 / 1000) \<or>
            (c' = 4494592428115755 / 4503599627370496 \<and> c = 998 / 1000)"
    and t: "(t = 1 \<and> f = 0) \<or>
            (t = 3602879701896397 / 36028797018963968 \<and> f = 1) \<or>
            (t = 5764607523034235 / 576460752303423488 \<and> f = 2) \<or>
            (t = 1152921504606847 / 1152921504606846976 \<and> f = 3)"
    and clear: "clear_of_midpoints (p * c * 10 ^ f)"
  shows "toFixed (js_mul (Math_round (js_div (js_mul (Num p) (Num c')) (Num t))) (Num t)) f
           = Fixed False (nat \<lfloor>p * c * 10 ^ f + 1 / 2\<rfloor>) f"
proof (cases "p * c * 10 ^ f < 1 / 4")
  case True
  have "0 < c" using c by auto
  then have "0 \<le> p * c * 10 ^ f" using p by simp
  then have "\<lfloor>p * c * 10 ^ f + 1 / 2\<rfloor> = 0"
    using True by (intro floor_unique) simp_all
  then show ?thesis
    using quantize_steps_below_first_midpoint [OF p c t True] by simp
next
  case False
  then have q: "1 / 4 \<le> p * c * 10 ^ f" by simp
  have k: "of_int \<lfloor>p * c * 10 ^ f + 1 / 2\<rfloor> \<le> p * c * 10 ^ f + 1 / 2"
    "p * c * 10 ^ f + 1 / 2 < of_int \<lfloor>p * c * 10 ^ f + 1 / 2\<rfloor> + 1"
    by linarith+
  from clear have cl:
    "p * c * 10 ^ f / 2 ^ 50 < p * c * 10 ^ f + 1 / 2 - of_int \<lfloor>p * c * 10 ^ f + 1 / 2\<rfloor>"
    "p * c * 10 ^ f + 1 / 2 - of_int \<lfloor>p * c * 10 ^ f + 1 / 2\<rfloor> < 1 - p * c * 10 ^ f / 2 ^ 50"
    by (simp_all only: clear_of_midpoints_iff)
  show ?thesis
    using p c t q k cl by (rule quantize_steps_nearest)
qed

lemma quantize_against_reference:
  assumes "0 < p" and "clear_of_midpoints (ticks_of p sd szd)"
  shows "quantize (Num p) sd szd = quantize_spec p sd szd"
proof -
  define c where "c = bias_of sd"
  define c' :: rat where "c' = (case sd of
      Buy \<Rightarrow> 4512606826625237 / 4503599627370496
    | Sell \<Rightarrow> 4494592428115755 / 4503599627370496)"
  define f where "f = snd (tick_table szd)"
  define t :: rat where "t =
     (if 5 \<le> szd then 1 else if 4 \<le> szd then 3602879701896397 / 36028797018963968
      else if 3 \<le> szd then 5764607523034235 / 576460752303423488
      else 1152921504606847 / 1152921504606846976)"
  have c: "(c' = 4512606826625237 / 4503599627370496 \<and> c = 1002 / 1000) \<or>
           (c' = 4494592428115755 / 4503599627370496 \<and> c = 998 / 1000)"
    by (cases sd) (simp_all add: c_def c'_def bias_of_def)
  have t: "(t = 1 \<and> f = 0) \<or>
           (t = 3602879701896397 / 36028797018963968 \<and> f = 1) \<or>
           (t = 5764607523034235 / 576460752303423488 \<and> f = 2) \<or>
           (t = 1152921504606847 / 1152921504606846976 \<and> f = 3)"
    by (simp add: t_def f_def tick_table_def)
  have unit: "tick_of szd * 10 ^ f = 1"
    by (simp add: tick_of_def f_def tick_table_def)
  have "tick_of szd \<noteq> 0" using unit by auto
  then have "p * bias_of sd / tick_of szd = p * bias_of sd * (tick_of szd * 10 ^ f) / tick_of szd"
    by (simp only: unit mult_1_right)
  also have "\<dots> = p * c * 10 ^ f"
    using \<open>tick_of szd \<noteq> 0\<close> by (simp add: c_def)
  finally have ticks: "ticks_of p sd szd = p * c * 10 ^ f"
    by (simp only: ticks_of_def)
  have adj: "(if sd = Buy then lit (1002 / 1000) else lit (998 / 1000)) = Num c'"
    by (cases sd) (simp_all add: c'_def lit_eval)
  have tk: "(if 5 \<le> szd then lit 1 else if 4 \<le> szd then lit (1 / 10)
             else if 3 \<le> szd then lit (1 / 100) else lit (1 / 1000)) = Num t"
    by (simp add: t_def lit_eval)
  have dec: "(if 5 \<le> szd then 0 else if 4 \<le> szd then 1 else if 3 \<le> szd then 2 else 3) = f"
    by (simp add: f_def tick_table_def)
  have code: "quantize (Num p) sd szd =
      toFixed (js_mul (Math_round (js_div (js_mul (Num p) (Num c')) (Num t))) (Num t)) f"
    by (simp only: quantize_def Let_def adj tk dec)
  have "of_int k * tick_of szd * 10 ^ f = (of_int k :: rat)" for k
    using unit by (simp only: mult.assoc mult_1_right)
  moreover have "\<lfloor>(of_int k :: rat) + 1 / 2\<rfloor> = k" for k
    by (rule floor_unique) simp_all
  ultimately have "nat \<lfloor>of_int k * tick_of szd * 10 ^ f + 1 / 2\<rfloor> = nat k" for k
    by (simp only:)
  then have spec: "quantize_spec p sd szd = Fixed False (nat \<lfloor>p * c * 10 ^ f + 1 / 2\<rfloor>) f"
    by (simp only: quantize_spec_def written_with_def Let_def ticks f_def [symmetric])
  from assms(2) have "clear_of_midpoints (p * c * 10 ^ f)" by (simp only: ticks)
  from quantize_steps_reference [OF assms(1) c t this] show ?thesis
    by (simp only: code spec)
qed

lemma buy_near_tie_parsed: "to_double (31187624750499 / 500000000000) = Num (8778535950307385 / 140737488355328)"
  by (rule to_double_cert [where e = "5" and m = 8778535950307385]) (simp_all add: pow2_eval)

lemma buy_near_tie_biased: "to_double (39614081257132167831172348475245 / 633825300114114700748351602688) = Num (125 / 2)"
  by (rule to_double_cert [where e = "5" and m = 8796093022208000]) (simp_all add: pow2_eval)

lemma buy_near_tie_ticks: "to_double (125 / 2) = Num (125 / 2)"
  by (rule to_double_cert [where e = "5" and m = 8796093022208000]) (simp_all add: pow2_eval)

lemma to_double_63: "to_double 63 = Num 63"
  by (rule to_double_cert [where e = "5" and m = 8866461766385664]) (simp_all add: pow2_eval)

lemma buy_1e21_parsed: "to_double 1000000000000000000000 = Num 1000000000000000000000"
  by (rule to_double_cert [where e = "69" and m = 7629394531250000]) (simp_all add: pow2_eval)

lemma buy_1e21_biased: "to_double (2151778615296000003814697265625 / 2147483648) = Num 1002000000000000000000"
  by (rule to_double_cert [where e = "69" and m = 7644653320312500]) (simp_all add: pow2_eval)

lemma buy_1e21_ticks: "to_double 1002000000000000000000 = Num 1002000000000000000000"
  by (rule to_double_cert [where e = "69" and m = 7644653320312500]) (simp_all add: pow2_eval)

subsection \<open>The top-level handler\<close>


subsection \<open>The leverage step\<close>

text \<open>
  C2 (as the code has it). Take a request with a non-empty leverage field. When the
  metadata read of the leverage step or the leverage update throws a value whose
  message the handler can read and print, the value is caught, its message is logged,
  and the run goes on with the metadata read of step 5: the result and the orders are
  those of the rest of the pipeline, and when that metadata lists the coin the order is
  submitted. Every instance of \<^verbatim>\<open>Error\<close> is such a value. When the universe read
  inside the leverage step does not list the coin, the step does not throw: it returns
  the failure \<^verbatim>\<open>Asset <coin> not found in universe\<close>, and the run ends there after
  the one metadata read, with no order.
\<close>

theorem leverage_error_is_not_fatal:
  assumes "leverage args = Some lev" and "lev \<noteq> []"
  shows "(message_of e = Inr msg \<and> shown msg \<and>
          (meta_for_leverage w = Inl e \<or>
           (\<exists>universe i. meta_for_leverage w = Inr universe \<and>
              findIndex (\<lambda>u. asset_name u = coin args) universe = Some i \<and>
              updateLeverage w cl i True (parseInt lev) = Some e)) \<longrightarrow>
          (\<exists>before.
             orders_of before = [] \<and>
             fst (adjust_leverage w cl args coinPrice) =
               before @ [LogLeverageFailed msg] @ fst (price_and_submit w cl args coinPrice)) \<and>
          snd (adjust_leverage w cl args coinPrice) = snd (price_and_submit w cl args coinPrice) \<and>
          orders_of (fst (adjust_leverage w cl args coinPrice)) =
            orders_of (fst (price_and_submit w cl args coinPrice)) \<and>
          (\<forall>universe2 i2.
             meta_for_order w = Inr universe2 \<and>
             findIndex (\<lambda>u. asset_name u = coin args) universe2 = Some i2 \<longrightarrow>
             orders_of (fst (adjust_leverage w cl args coinPrice)) =
               [(cl, order_of args i2
                       (quantize (price_of coinPrice) (side args) (szDecimals (universe2 ! i2))))])) \<and>
         (\<forall>universe.
            meta_for_leverage w = Inr universe \<and>
            findIndex (\<lambda>u. asset_name u = coin args) universe = None \<longrightarrow>
            adjust_leverage w cl args coinPrice =
              ([Meta], Inr (JObj [(''error'', JStr (''Asset '' @ coin args @ '' not found in universe'')),
                                  (''success'', JBool False)]))) \<and>
         message_of (Error m) = Inr (Some (JStr m)) \<and> shown (Some (JStr m))"
proof (intro conjI impI allI)
  assume a: "message_of e = Inr msg \<and> shown msg \<and>
          (meta_for_leverage w = Inl e \<or>
           (\<exists>universe i. meta_for_leverage w = Inr universe \<and>
              findIndex (\<lambda>u. asset_name u = coin args) universe = Some i \<and>
              updateLeverage w cl i True (parseInt lev) = Some e))"
  from a have msg: "message_of e = Inr msg" "shown msg" by simp_all
  from a obtain before where before: "orders_of before = []"
      "adjust_leverage w cl args coinPrice = emit before (on_leverage_error w cl args coinPrice e)"
    using leverage_step_throws [OF assms, of w e cl coinPrice] by blast
  have whole: "adjust_leverage w cl args coinPrice =
      (before @ [LogLeverageFailed msg] @ fst (price_and_submit w cl args coinPrice),
       snd (price_and_submit w cl args coinPrice))"
    by (simp add: before(2) on_leverage_error_def msg emit_def)
  show "\<exists>before.
             orders_of before = [] \<and>
             fst (adjust_leverage w cl args coinPrice) =
               before @ [LogLeverageFailed msg] @ fst (price_and_submit w cl args coinPrice)"
    using before(1) whole by auto
  show "snd (adjust_leverage w cl args coinPrice) = snd (price_and_submit w cl args coinPrice)"
    by (simp add: whole)
  show same: "orders_of (fst (adjust_leverage w cl args coinPrice)) =
            orders_of (fst (price_and_submit w cl args coinPrice))"
    by (simp add: whole orders_of_append before(1))
  fix universe2 i2
  assume "meta_for_order w = Inr universe2 \<and>
             findIndex (\<lambda>u. asset_name u = coin args) universe2 = Some i2"
  then show "orders_of (fst (adjust_leverage w cl args coinPrice)) =
               [(cl, order_of args i2
                       (quantize (price_of coinPrice) (side args) (szDecimals (universe2 ! i2))))]"
    by (simp add: same price_and_submit_orders)
next
  fix universe
  assume "meta_for_leverage w = Inr universe \<and>
            findIndex (\<lambda>u. asset_name u = coin args) universe = None"
  then show "adjust_leverage w cl args coinPrice =
              ([Meta], Inr (JObj [(''error'', JStr (''Asset '' @ coin args @ '' not found in universe'')),
                                  (''success'', JBool False)]))"
    using assms by (simp add: adjust_leverage_def emit_def returns_def failure_eq)
next
  show "message_of (Error m) = Inr (Some (JStr m))" by (simp add: message_of_def)
  show "shown (Some (JStr m))" by (simp add: shown_def)
qed

theorem leverage_error_is_not_fatal_witness:
  "fst (adjust_leverage (demo_world\<lparr>updateLeverage := \<lambda>cl a c l. Some (Error ''leverage rejected'')\<rparr>)
          demo_client demo_args (Quote ''50000'')) =
     [Meta, UpdateLeverage demo_client 0 True (Num 5), LogLeverageFailed (Some (JStr ''leverage rejected''))] @
     fst (price_and_submit (demo_world\<lparr>updateLeverage := \<lambda>cl a c l. Some (Error ''leverage rejected'')\<rparr>)
            demo_client demo_args (Quote ''50000'')) \<and>
   orders_of (fst (adjust_leverage (demo_world\<lparr>updateLeverage := \<lambda>cl a c l. Some (Error ''leverage rejected'')\<rparr>)
          demo_client demo_args (Quote ''50000''))) =
     [(demo_client, order_of demo_args 0 (Fixed False 50100 0))] \<and>
   snd (adjust_leverage (demo_world\<lparr>updateLeverage := \<lambda>cl a c l. Some (Error ''leverage rejected'')\<rparr>)
          demo_client demo_args (Quote ''50000'')) =
     Inr (JObj [(''success'', JBool True), (''coin'', JStr ''BTC''), (''side'', JStr ''buy''),
                (''size'', JStr ''0.01''), (''leverage'', JStr ''5''),
                (''avgFillPrice'', JStr ''50010''), (''totalFilled'', JStr ''0.01''),
                (''oid'', JNum 77), (''message'', JStr ''Successfully longed 0.01 BTC'')]) \<and>
   adjust_leverage (demo_world\<lparr>meta_for_leverage := Inr []\<rparr>) demo_client demo_args (Quote ''50000'') =
     ([Meta], Inr (JObj [(''error'', JStr ''Asset BTC not found in universe''),
                         (''success'', JBool False)]))"
proof -
  let ?w = "demo_world\<lparr>updateLeverage := \<lambda>cl a c l. Some (Error ''leverage rejected'')\<rparr>"
  let ?v = "demo_world\<lparr>meta_for_leverage := Inr []\<rparr>"
  have lev: "leverage demo_args = Some ''5''" "''5'' \<noteq> []"
    by (simp_all add: demo_args_def)
  have failing: "message_of (Error ''leverage rejected'') = Inr (Some (JStr ''leverage rejected'')) \<and>
     shown (Some (JStr ''leverage rejected'')) \<and>
     (meta_for_leverage ?w = Inl (Error ''leverage rejected'') \<or>
      (\<exists>universe i. meta_for_leverage ?w = Inr universe \<and>
         findIndex (\<lambda>u. asset_name u = coin demo_args) universe = Some i \<and>
         updateLeverage ?w demo_client i True (parseInt ''5'') = Some (Error ''leverage rejected'')))"
    by (simp add: demo_world_def demo_args_def message_of_def shown_def)
  have missing: "meta_for_leverage ?v = Inr [] \<and>
     findIndex (\<lambda>u. asset_name u = coin demo_args) [] = None"
    by (simp add: demo_world_def)
  have rest: "price_and_submit ?w demo_client demo_args (Quote ''50000'') =
     ([Meta, Order demo_client (order_of demo_args 0 (Fixed False 50100 0)),
       LogAvgFillPrice (Inl (JStr ''50010''))],
      Inr (JObj [(''success'', JBool True), (''coin'', JStr ''BTC''), (''side'', JStr ''buy''),
                (''size'', JStr ''0.01''), (''leverage'', JStr ''5''),
                (''avgFillPrice'', JStr ''50010''), (''totalFilled'', JStr ''0.01''),
                (''oid'', JNum 77), (''message'', JStr ''Successfully longed 0.01 BTC'')]))"
    by (simp add: run_eval demo_eval order_of_def)
  have whole: "fst (adjust_leverage ?w demo_client demo_args (Quote ''50000'')) =
     [Meta, UpdateLeverage demo_client 0 True (Num 5), LogLeverageFailed (Some (JStr ''leverage rejected''))] @
     fst (price_and_submit ?w demo_client demo_args (Quote ''50000''))"
    by (simp add: adjust_leverage_def on_leverage_error_def message_of_def shown_def emit_simps
        demo_world_def demo_args_def demo_leverage)
  from leverage_error_is_not_fatal [OF lev, of "Error ''leverage rejected''"
      "Some (JStr ''leverage rejected'')" ?w demo_client "Quote ''50000''"] failing
  have first: "snd (adjust_leverage ?w demo_client demo_args (Quote ''50000'')) =
        snd (price_and_submit ?w demo_client demo_args (Quote ''50000'')) \<and>
      orders_of (fst (adjust_leverage ?w demo_client demo_args (Quote ''50000''))) =
        orders_of (fst (price_and_submit ?w demo_client demo_args (Quote ''50000'')))"
    by blast
  from leverage_error_is_not_fatal [OF lev, of _ _ ?v _ "Quote ''50000''"] missing
  have second: "adjust_leverage ?v demo_client demo_args (Quote ''50000'') =
     ([Meta], Inr (JObj [(''error'', JStr (''Asset '' @ coin demo_args @ '' not found in universe'')),
                         (''success'', JBool False)]))"
    by blast
  have btc: "coin demo_args = ''BTC''" by (simp add: demo_args_def)
  show ?thesis
    using first second whole by (simp add: rest btc)
qed

theorem leverage_lookup_halts_counterexample:
  "snd (run (demo_world\<lparr>meta_for_leverage := Inr []\<rparr>) demo_env (Some ''ws1'') demo_args) =
     Inr (JObj [(''error'', JStr ''Asset BTC not found in universe''), (''success'', JBool False)]) \<and>
   orders_of (fst (run (demo_world\<lparr>meta_for_leverage := Inr []\<rparr>) demo_env (Some ''ws1'') demo_args)) = [] \<and>
   orders_of (fst (run (demo_world\<lparr>meta_for_leverage := Inr []\<rparr>) demo_env (Some ''ws1'')
                     (demo_args\<lparr>leverage := None\<rparr>))) =
     [(demo_client, order_of demo_args 0 (Fixed False 50100 0))]"
  by (simp add: run_eval demo_eval order_of_def)

text \<open>
  The handler of the leverage step reads \<^verbatim>\<open>leverageError.message\<close> without a guard.
  When the leverage update rejects with \<^verbatim>\<open>null\<close> that read throws inside the
  handler, the top-level handler takes over and no order is submitted.
\<close>

lemma leverage_handler_throws_on_null:
  "run (demo_world\<lparr>updateLeverage := \<lambda>cl a c l. Some (Plain (Some JNull))\<rparr>)
      demo_env (Some ''ws1'') demo_args =
     ([Fetch ''https://api.openserv.ai/workspaces/ws1/agent-secrets'',
       Fetch ''https://api.openserv.ai/workspaces/ws1/agent-secrets/1/value'',
       NewExchangeClient demo_client, AllMids, Meta, UpdateLeverage demo_client 0 True (Num 5)],
      Inr (JObj [(''error'', JStr (''Cannot read properties of null (reading ''
                                    @ single_quoted ''message'' @ '')'')),
                 (''success'', JBool False)]))"
  by (simp add: run_eval demo_eval)

subsection \<open>The reading of the exchange reply\<close>

text \<open>
  C3 (evaluation at the failing inputs). For a \<^verbatim>\<open>filled\<close> status that carries no
  average price, or an empty one, the console line prints the computed limit price in
  its place, while the returned object has no \<^verbatim>\<open>avgFillPrice\<close> member, or the
  empty string: the fallback of the log is not applied to the result.
\<close>

theorem filled_without_average_price:
  "classify demo_args (Fixed False 50100 0)
     (JObj [(''status'', JStr ''ok''),
            (''response'', JObj [(''type'', JStr ''order''),
               (''data'', JObj [(''statuses'',
                  JArr [JObj [(''filled'', JObj [(''totalSz'', JStr ''0.01''), (''oid'', JNum 77)])]])])])]) =
     ([LogAvgFillPrice (Inr (Fixed False 50100 0))],
      Inr (JObj [(''success'', JBool True), (''coin'', JStr ''BTC''), (''side'', JStr ''buy''),
                 (''size'', JStr ''0.01''), (''leverage'', JStr ''5''),
                 (''totalFilled'', JStr ''0.01''), (''oid'', JNum 77),
                 (''message'', JStr ''Successfully longed 0.01 BTC'')])) \<and>
   classify demo_args (Fixed False 50100 0)
     (JObj [(''status'', JStr ''ok''),
            (''response'', JObj [(''type'', JStr ''order''),
               (''data'', JObj [(''statuses'',
                  JArr [JObj [(''filled'', JObj [(''totalSz'', JStr ''0.01''), (''avgPx'', JStr []),
                                                 (''oid'', JNum 77)])]])])])]) =
     ([LogAvgFillPrice (Inr (Fixed False 50100 0))],
      Inr (JObj [(''success'', JBool True), (''coin'', JStr ''BTC''), (''side'', JStr ''buy''),
                 (''size'', JStr ''0.01''), (''leverage'', JStr ''5''),
                 (''avgFillPrice'', JStr []),
                 (''totalFilled'', JStr ''0.01''), (''oid'', JNum 77),
                 (''message'', JStr ''Successfully longed 0.01 BTC'')]))"
  by (simp add: run_eval demo_eval)

subsection \<open>The price quantizer\<close>

text \<open>
  C4 (as the code has it). For every positive raw price, either side and every
  size-decimal count, the quantizer of the code gives the result of the reference
  definition of section 4.3, computed exactly: bias by 1.002 for a buy and 0.998 for a
  sell, tick size and price decimals from the table, the nearest whole number of ticks
  times the tick, written with that many fractional digits; this holds whenever the
  biased price, counted in ticks, lies further than one part in \<open>2 ^ 50\<close> of itself from
  the midpoints below and above it. A buy at 50000 with five size decimals gives the
  limit price 50100.
\<close>

theorem quantize_follows_reference:
  "(0 < p \<and> clear_of_midpoints (ticks_of p sd szd) \<longrightarrow>
      quantize (Num p) sd szd = quantize_spec p sd szd) \<and>
   quantize (parseFloat ''50000'') Buy 5 = Fixed False 50100 0 \<and>
   fixed_text False 50100 0 = ''50100''"
proof -
  have "fixed_text False 50100 0 = ''50100''"
    by (simp add: fixed_text_def decimal.simps digit_char_def)
  then show ?thesis
    by (simp add: demo_limit quantize_against_reference)
qed

theorem quantize_follows_reference_witness:
  "(0 :: rat) < 50000 \<and> clear_of_midpoints (ticks_of 50000 Buy 5) \<and>
   parseFloat ''50000'' = Num 50000 \<and>
   quantize (Num 50000) Buy 5 = quantize_spec 50000 Buy 5 \<and>
   quantize_spec 50000 Buy 5 = Fixed False 50100 0"
proof -
  have ticks: "ticks_of 50000 Buy 5 = 50100"
    by (simp add: ticks_of_def bias_of_def tick_of_def)
  have "\<lfloor>(50100 :: rat) + 1 / 2\<rfloor> = 50100"
    by (rule floor_unique) simp_all
  then have clear: "clear_of_midpoints (ticks_of 50000 Buy 5)"
    and spec: "quantize_spec 50000 Buy 5 = Fixed False 50100 0"
    by (simp_all add: clear_of_midpoints_iff quantize_spec_def written_with_def Let_def ticks tick_of_def
        tick_table_def)
  from quantize_follows_reference [of 50000 Buy 5] clear
  have "quantize (Num 50000) Buy 5 = quantize_spec 50000 Buy 5" by simp
  then show ?thesis
    using clear spec by (simp add: parseFloat_50000)
qed

theorem quantize_departs_from_reference_counterexample:
  "parseFloat ''62.375249500998'' = Num (8778535950307385 / 140737488355328) \<and>
   quantize (parseFloat ''62.375249500998'') Buy 5 = Fixed False 63 0 \<and>
   quantize_spec (8778535950307385 / 140737488355328) Buy 5 = Fixed False 62 0 \<and>
   quantize_spec (62375249500998 / 10 ^ 12) Buy 5 = Fixed False 62 0 \<and>
   parseFloat ''1e21'' = Num (10 ^ 21) \<and>
   quantize (parseFloat ''1e21'') Buy 5 = ToString (Num (1002 * 10 ^ 18)) \<and>
   quantize_spec (10 ^ 21) Buy 5 = Fixed False (1002 * 10 ^ 18) 0"
proof -
  have near: "parseFloat ''62.375249500998'' = Num (8778535950307385 / 140737488355328)"
    by (simp add: parse_eval buy_near_tie_parsed)
  have code: "quantize (Num (8778535950307385 / 140737488355328)) Buy 5 = Fixed False 63 0"
    by (simp add: js_eval lit_eval buy_near_tie_biased buy_near_tie_ticks to_double_63)
  have "\<lfloor>(8778535950307385 / 140737488355328 :: rat) * (1002 / 1000) + 1 / 2\<rfloor> = 62"
    by (rule floor_unique) simp_all
  then have spec: "quantize_spec (8778535950307385 / 140737488355328) Buy 5 = Fixed False 62 0"
    by (simp add: quantize_spec_def written_with_def Let_def ticks_of_def bias_of_def tick_of_def tick_table_def)
  have "\<lfloor>(62375249500998 / 10 ^ 12 :: rat) * (1002 / 1000) + 1 / 2\<rfloor> = 62"
    by (rule floor_unique) simp_all
  then have written: "quantize_spec (62375249500998 / 10 ^ 12) Buy 5 = Fixed False 62 0"
    by (simp add: quantize_spec_def written_with_def Let_def ticks_of_def bias_of_def tick_of_def tick_table_def)
  define P :: rat where "P = 10 ^ 21"
  define B :: rat where "B = 1002 * 10 ^ 18"
  have big: "parseFloat ''1e21'' = Num P"
    by (simp add: parse_eval buy_1e21_parsed P_def)
  have "to_double (P * (4512606826625237 / 4503599627370496)) = Num B"
    using buy_1e21_biased by (simp add: P_def B_def)
  moreover have "to_double B = Num B"
    using buy_1e21_ticks by (simp add: B_def)
  moreover have "\<lfloor>B + 1 / 2\<rfloor> = 1002 * 10 ^ 18"
    by (rule floor_unique) (simp_all add: B_def)
  then have "(of_int \<lfloor>B + 1 / 2\<rfloor> :: rat) = B" by (simp add: B_def)
  moreover have "\<not> \<bar>B\<bar> < 10 ^ 21" by (simp add: B_def)
  ultimately have far: "quantize (Num P) Buy 5 = ToString (Num B)"
    by (simp add: quantize_def Let_def lit_eval js_mul_Num js_div_Num Math_round_Num toFixed_def)
  have "\<lfloor>(10 ^ 21 :: rat) * (1002 / 1000) + 1 / 2\<rfloor> = 1002 * 10 ^ 18"
    by (rule floor_unique) simp_all
  then have ref: "quantize_spec (10 ^ 21) Buy 5 = Fixed False (1002 * 10 ^ 18) 0"
    by (simp add: quantize_spec_def written_with_def Let_def ticks_of_def bias_of_def tick_of_def tick_table_def)
  show ?thesis
    using near code spec written big far ref by (simp add: P_def B_def)
qed

text \<open>
  C5 (evaluation at the failing inputs). With a tick of 0.001 a buy quoted at 0.1002 is
  biased to 0.1004004 and rounded to 0.100, below the quoted price; a sell quoted at
  0.0998 is biased to 0.0996004 and rounded to 0.100, above the quoted price.
\<close>

theorem rounding_undoes_the_bias:
  "parseFloat ''0.1002'' = Num (7220170922600379 / 72057594037927936) \<and>
   quantize (parseFloat ''0.1002'') Buy 0 = Fixed False 100 3 \<and>
   fixed_value (Fixed False 100 3) = Some (1 / 10) \<and>
   (1 / 10 :: rat) < 7220170922600379 / 72057594037927936 \<and>
   parseFloat ''0.0998'' = Num (898918485623151 / 9007199254740992) \<and>
   quantize (parseFloat ''0.0998'') Sell 0 = Fixed False 100 3 \<and>
   (898918485623151 / 9007199254740992 :: rat) < 1 / 10"
proof -
  have buy: "parseFloat ''0.1002'' = Num (7220170922600379 / 72057594037927936)"
    by (simp add: parse_eval buy_01002_parsed)
  have sell: "parseFloat ''0.0998'' = Num (898918485623151 / 9007199254740992)"
    by (simp add: parse_eval sell_00998_parsed)
  have "quantize (Num (7220170922600379 / 72057594037927936)) Buy 0 = Fixed False 100 3"
    by (simp add: js_eval lit_eval buy_01002_biased buy_01002_ticks buy_01002_rounded)
  moreover have "quantize (Num (898918485623151 / 9007199254740992)) Sell 0 = Fixed False 100 3"
    by (simp add: js_eval lit_eval sell_00998_biased sell_00998_ticks buy_01002_rounded)
  ultimately show ?thesis
    by (simp add: buy sell fixed_value_def)
qed

text \<open>
  C6 (as the code has it). Applying the quantizer to its own result, the printed price
  parsed again, with the same side and size decimals, gives the same limit price whenever
  that result is a fixed-notation price of fewer than 250 ticks. From 250 ticks on the 0.2 per
  cent bias of the second application is half a tick or more and moves the price.
\<close>

theorem requantize_below_250_ticks:
  assumes "quantize (Num p) sd szd = Fixed False n f" and "n < 250"
  shows "requantize (quantize (Num p) sd szd) sd szd = quantize (Num p) sd szd"
proof -
  have f: "f = snd (tick_table szd)" using assms(1) by (rule quantize_digits)
  have "requantize (Fixed False n f) sd szd = quantize (to_double (of_nat n / 10 ^ f)) sd szd"
    by (simp add: requantize_def parseFloat_fixed_text)
  also have "\<dots> = Fixed False n f"
    unfolding f using assms(2) by (rule requantize_fixed_point)
  finally show ?thesis by (simp add: assms(1))
qed

theorem requantize_below_250_ticks_witness:
  "quantize (Num 100) Buy 5 = Fixed False 100 0 \<and> (100 :: nat) < 250 \<and>
   requantize (quantize (Num 100) Buy 5) Buy 5 = Fixed False 100 0"
proof -
  have q: "quantize (Num 100) Buy 5 = Fixed False 100 0"
    by (simp add: js_eval lit_eval buy_100_biased buy_100_ticks to_double_100)
  from requantize_below_250_ticks [OF q] q
  show ?thesis by simp
qed

theorem requantize_moves_the_price_counterexample:
  "quantize (parseFloat ''50000'') Buy 5 = Fixed False 50100 0 \<and>
   requantize (quantize (parseFloat ''50000'') Buy 5) Buy 5 = Fixed False 50200 0 \<and>
   requantize (quantize (parseFloat ''50000'') Buy 5) Buy 5 \<noteq> quantize (parseFloat ''50000'') Buy 5"
proof -
  have "quantize (Num 50100) Buy 5 = Fixed False 50200 0"
    by (simp add: js_eval lit_eval buy_50100_biased buy_50100_ticks to_double_50200)
  then have "requantize (Fixed False 50100 0) Buy 5 = Fixed False 50200 0"
    by (simp add: requantize_def parseFloat_fixed_text to_double_50100)
  then show ?thesis
    by (simp add: demo_limit)
qed

text \<open>
  C7 (as the code has it). For every positive raw price up to \<open>10 ^ 20\<close>, either side
  and every size-decimal count, the limit price is printed in fixed notation with the
  price decimals of the table, so it is a whole number of ticks of the table's tick size.
  Beyond the range of a double the quotient by the tick overflows and the printed price
  is \<^verbatim>\<open>Infinity\<close>.
\<close>

theorem limit_price_is_multiple_of_tick:
  assumes "0 < p" and "p \<le> 10 ^ 20"
  shows "\<exists>n. quantize (Num p) sd szd = Fixed False n (snd (tick_table szd)) \<and>
              fixed_value (quantize (Num p) sd szd) = Some (of_nat n * tick_of szd)"
proof -
  from quantize_fixed [OF assms] obtain n where
    n: "quantize (Num p) sd szd = Fixed False n (snd (tick_table szd))" by blast
  have "fixed_value (Fixed False n (snd (tick_table szd))) = Some (of_nat n * tick_of szd)"
    by (simp add: fixed_value_def tick_table_def tick_of_def)
  with n show ?thesis by auto
qed

theorem limit_price_is_multiple_of_tick_witness:
  "(0 :: rat) < 50000 \<and> (50000 :: rat) \<le> 10 ^ 20 \<and>
   quantize (Num 50000) Buy 5 = Fixed False 50100 (snd (tick_table 5)) \<and>
   fixed_value (quantize (Num 50000) Buy 5) = Some (of_nat 50100 * tick_of 5)"
proof -
  have q: "quantize (Num 50000) Buy 5 = Fixed False 50100 0"
    using demo_limit by (simp add: parseFloat_50000)
  from limit_price_is_multiple_of_tick [of 50000 Buy 5]
  show ?thesis
    by (simp add: q tick_table_def tick_of_def fixed_value_def)
qed

theorem limit_price_overflow_counterexample:
  "quantize (parseFloat ''1e306'') Sell 0 = ToString PInfinity \<and>
   fixed_value (quantize (parseFloat ''1e306'') Sell 0) = None"
proof -
  define P :: rat where "P = 6413338752028713 * 2 ^ 964"
  define B :: rat where "B = 6400512074524656 * 2 ^ 964"
  have "to_double (10 ^ 306) = Num P"
    by (rule to_double_cert [where e = 1016 and m = 6413338752028713])
      (simp_all add: pow2_eval P_def)
  then have p: "parseFloat ''1e306'' = Num P"
    by (simp add: parse_eval)
  have "to_double (P * (4494592428115755 / 4503599627370496)) = Num B"
    by (rule to_double_cert [where e = 1016 and m = 6400512074524656])
      (simp_all add: pow2_eval P_def B_def)
  then have b: "js_mul (Num P) (Num (4494592428115755 / 4503599627370496)) = Num B"
    by (simp only: js_mul_Num)
  have "to_double (B / (1152921504606847 / 1152921504606846976)) = PInfinity"
    by (rule to_double_overflow) (simp add: pow2_eval B_def)
  then have d: "js_div (Num B) (Num (1152921504606847 / 1152921504606846976)) = PInfinity"
    by (simp add: js_div_Num)
  have "quantize (parseFloat ''1e306'') Sell 0 = ToString PInfinity"
    by (simp add: quantize_def Let_def lit_eval p b d js_infinity)
  then show ?thesis
    by (simp add: fixed_value_def)
qed

subsection \<open>Secret resolution\<close>

text \<open>
  C8. When the listing was obtained and no secret in it carries the requested private-key
  name, the operation stops after the listing call and returns a failure whose error
  names the missing secret and whose \<^verbatim>\<open>availableSecrets\<close> is the list of the names
  of all secrets of the listing, in order.
\<close>

theorem missing_private_key_lists_available:
  assumes "workspaceId \<noteq> []" and "truthy_string (OPENSERV_API_KEY ev)"
    and "fetch_secrets w (secrets_url (api_base ev) workspaceId) = Inr resp"
    and "ok resp" and "body resp = Inr secrets"
    and "pk_name args \<notin> set (map secret_name secrets)"
  shows "run w ev (Some workspaceId) args =
     ([Fetch (secrets_url (api_base ev) workspaceId)],
      Inr (JObj
        [(''error'', JStr (''Secret '' @ quoted (pk_name args) @ '' not found in OpenServ workspace'')),
         (''availableSecrets'', JArr (map (\<lambda>s. JStr (secret_name s)) secrets)),
         (''success'', JBool False)]))"
proof -
  have "find (\<lambda>s. secret_name s = pk_name args) secrets = None"
    using assms(6) by (force simp add: find_None_iff)
  then show ?thesis
    using assms(1-5)
    by (simp add: run_def run_try_def resolve_secrets_def emit_def returns_def object_simps)
qed

theorem missing_private_key_lists_available_witness:
  "run demo_world demo_env (Some ''ws1'') (demo_args\<lparr>pk_name := ''missing''\<rparr>) =
     ([Fetch ''https://api.openserv.ai/workspaces/ws1/agent-secrets''],
      Inr (JObj
        [(''error'', JStr (''Secret '' @ quoted ''missing'' @ '' not found in OpenServ workspace'')),
         (''availableSecrets'', JArr [JStr ''k1'', JStr ''k2'']),
         (''success'', JBool False)]))"
proof -
  have "fetch_secrets demo_world (secrets_url (api_base demo_env) ''ws1'')
          = Inr \<lparr>ok = True, status = 200, body = Inr demo_secrets\<rparr>"
    by (simp add: demo_world_def)
  from missing_private_key_lists_available [of "''ws1''" demo_env demo_world
      "\<lparr>ok = True, status = 200, body = Inr demo_secrets\<rparr>" demo_secrets
      "demo_args\<lparr>pk_name := ''missing''\<rparr>", OF _ _ this]
  show ?thesis
    by (simp add: demo_env_def demo_args_def demo_secrets_def truthy_string_def
        secrets_url_def api_base_def)
qed

text \<open>
  C9 (as the code has it). The pattern \<^verbatim>\<open>/^"|"$/g\<close> removes a quote at the start and
  a quote at the end independently of each other: an enclosing pair loses one layer, a
  lone leading or lone trailing quote is removed as well, and a string with a quote at
  neither end is returned unchanged.
\<close>

theorem strip_quotes_each_end:
  "strip_quotes (dq # m @ [dq]) = m \<and>
   (m = [] \<or> last m \<noteq> dq \<longrightarrow> strip_quotes (dq # m) = m) \<and>
   (m \<noteq> [] \<and> hd m \<noteq> dq \<longrightarrow> strip_quotes (m @ [dq]) = m) \<and>
   (t = [] \<or> (hd t \<noteq> dq \<and> last t \<noteq> dq) \<longrightarrow> strip_quotes t = t)"
proof -
  have "m \<noteq> [] \<and> hd m \<noteq> dq \<longrightarrow> strip_quotes (m @ [dq]) = m"
    by (cases m) (auto simp add: strip_quotes_def)
  then show ?thesis
    by (auto simp add: strip_quotes_def)
qed

theorem strip_quotes_each_end_witness:
  "strip_quotes (dq # ''0xabc'' @ [dq]) = ''0xabc'' \<and>
   strip_quotes (dq # ''0xabc'') = ''0xabc'' \<and>
   strip_quotes (''0xabc'' @ [dq]) = ''0xabc'' \<and>
   strip_quotes ''0xabc'' = ''0xabc''"
  using strip_quotes_each_end [of "''0xabc''" "''0xabc''"]
  by (simp add: dq_def)

theorem strip_quotes_lone_quote_counterexample:
  "strip_enclosing_quotes (dq # ''0xabc'') = dq # ''0xabc'' \<and>
   strip_quotes (dq # ''0xabc'') = ''0xabc'' \<and>
   strip_quotes (dq # ''0xabc'') \<noteq> dq # ''0xabc''"
  by (simp add: strip_quotes_def strip_enclosing_quotes_def dq_def)

text \<open>
  C10 (as the code has it). Take a request that names a vault secret, in a run that
  obtained the listing. When the listing has no secret of that name, or the fetch of
  its value answers with a status that is not OK, the run ends with the very result of
  the same request without a vault name, submits the same orders, and every exchange
  client of the run is built without a vault address, so the order goes to the wallet's
  own account. When the private key was resolved and the fetch of the vault value
  throws, either because the fetch is rejected or because the body of an OK response
  cannot be read, nothing around the vault fetch catches it: after the three fetches the
  thrown value goes to the top-level handler, whose outcome ends the run, and no order
  is submitted.
\<close>

theorem vault_unavailable_is_not_fatal:
  assumes "vault_name args = Some v" and "v \<noteq> []"
    and "workspaceId \<noteq> []" and "truthy_string (OPENSERV_API_KEY ev)"
    and "fetch_secrets w (secrets_url (api_base ev) workspaceId) = Inr resp"
    and "ok resp" and "body resp = Inr secrets"
  shows "(find (\<lambda>s. secret_name s = v) secrets = None \<or>
          (\<exists>vs vresp. find (\<lambda>s. secret_name s = v) secrets = Some vs \<and>
             fetch_value w (value_url (api_base ev) workspaceId (secret_id vs)) = Inr vresp \<and>
             \<not> ok vresp) \<longrightarrow>
          snd (run w ev (Some workspaceId) args) =
            snd (run w ev (Some workspaceId) (args\<lparr>vault_name := None\<rparr>)) \<and>
          orders_of (fst (run w ev (Some workspaceId) args)) =
            orders_of (fst (run w ev (Some workspaceId) (args\<lparr>vault_name := None\<rparr>))) \<and>
          (\<forall>cl \<in> set (clients_of (fst (run w ev (Some workspaceId) args))).
             defaultVaultAddress cl = None)) \<and>
         (\<forall>pk presp raw vs err.
            find (\<lambda>s. secret_name s = pk_name args) secrets = Some pk \<and>
            fetch_value w (value_url (api_base ev) workspaceId (secret_id pk)) = Inr presp \<and>
            ok presp \<and> body presp = Inr raw \<and>
            find (\<lambda>s. secret_name s = v) secrets = Some vs \<and>
            (fetch_value w (value_url (api_base ev) workspaceId (secret_id vs)) = Inl err \<or>
             (\<exists>vresp. fetch_value w (value_url (api_base ev) workspaceId (secret_id vs)) = Inr vresp \<and>
                ok vresp \<and> body vresp = Inl err)) \<longrightarrow>
            run w ev (Some workspaceId) args =
              ([Fetch (secrets_url (api_base ev) workspaceId),
                Fetch (value_url (api_base ev) workspaceId (secret_id pk)),
                Fetch (value_url (api_base ev) workspaceId (secret_id vs))],
               on_exception err) \<and>
            orders_of (fst (run w ev (Some workspaceId) args)) = [])"
proof (intro conjI impI allI)
  let ?rest = "\<lambda>a. resolve_secrets w ev a (api_base ev) workspaceId secrets"
  have body_eq: "run_try w ev (Some workspaceId) a =
      emit [Fetch (secrets_url (api_base ev) workspaceId)] (?rest a)" for a
    using assms(3-7) by (simp add: run_try_def)
  have run: "fst (run w ev (Some workspaceId) a) = fst (run_try w ev (Some workspaceId) a)"
    "snd (run w ev (Some workspaceId) a) =
       (case snd (run_try w ev (Some workspaceId) a) of
          Inl err \<Rightarrow> on_exception err
        | Inr result \<Rightarrow> Inr result)" for a
    by (simp_all add: run_def split: prod.splits sum.splits)
  {
    assume unavailable: "find (\<lambda>s. secret_name s = v) secrets = None \<or>
          (\<exists>vs vresp. find (\<lambda>s. secret_name s = v) secrets = Some vs \<and>
             fetch_value w (value_url (api_base ev) workspaceId (secret_id vs)) = Inr vresp \<and>
             \<not> ok vresp)"
    note rs = resolve_secrets_without_vault [OF assms(1,2) unavailable, of ev]
      resolve_secrets_orders [OF assms(1,2) unavailable, of ev]
    show "snd (run w ev (Some workspaceId) args) =
            snd (run w ev (Some workspaceId) (args\<lparr>vault_name := None\<rparr>))"
      using rs by (simp add: run body_eq emit_simps)
    show "orders_of (fst (run w ev (Some workspaceId) args)) =
            orders_of (fst (run w ev (Some workspaceId) (args\<lparr>vault_name := None\<rparr>)))"
      using rs by (simp add: run body_eq emit_simps orders_of_append)
    show "\<forall>cl \<in> set (clients_of (fst (run w ev (Some workspaceId) args))).
             defaultVaultAddress cl = None"
      using rs by (simp add: run body_eq emit_simps clients_of_append)
  }
  fix pk presp raw vs err
  assume thrown: "find (\<lambda>s. secret_name s = pk_name args) secrets = Some pk \<and>
            fetch_value w (value_url (api_base ev) workspaceId (secret_id pk)) = Inr presp \<and>
            ok presp \<and> body presp = Inr raw \<and>
            find (\<lambda>s. secret_name s = v) secrets = Some vs \<and>
            (fetch_value w (value_url (api_base ev) workspaceId (secret_id vs)) = Inl err \<or>
             (\<exists>vresp. fetch_value w (value_url (api_base ev) workspaceId (secret_id vs)) = Inr vresp \<and>
                ok vresp \<and> body vresp = Inl err))"
  then have "?rest args =
      ([Fetch (value_url (api_base ev) workspaceId (secret_id pk)),
        Fetch (value_url (api_base ev) workspaceId (secret_id vs))], Inl err)"
    using assms(1,2) by (auto simp add: resolve_secrets_def Let_def emit_def throws_def)
  then show whole: "run w ev (Some workspaceId) args =
              ([Fetch (secrets_url (api_base ev) workspaceId),
                Fetch (value_url (api_base ev) workspaceId (secret_id pk)),
                Fetch (value_url (api_base ev) workspaceId (secret_id vs))],
               on_exception err)"
    by (simp add: run_def body_eq emit_def)
  show "orders_of (fst (run w ev (Some workspaceId) args)) = []"
    by (simp add: whole)
qed

theorem vault_unavailable_is_not_fatal_witness:
  "snd (run demo_world demo_env (Some ''ws1'') (demo_args\<lparr>vault_name := Some ''k2''\<rparr>)) =
     Inr (JObj [(''success'', JBool True), (''coin'', JStr ''BTC''), (''side'', JStr ''buy''),
                (''size'', JStr ''0.01''), (''leverage'', JStr ''5''),
                (''avgFillPrice'', JStr ''50010''), (''totalFilled'', JStr ''0.01''),
                (''oid'', JNum 77), (''message'', JStr ''Successfully longed 0.01 BTC'')]) \<and>
   orders_of (fst (run demo_world demo_env (Some ''ws1'') (demo_args\<lparr>vault_name := Some ''k2''\<rparr>))) =
     [(demo_client, order_of demo_args 0 (Fixed False 50100 0))] \<and>
   defaultVaultAddress demo_client = None \<and>
   run (demo_world\<lparr>fetch_value := \<lambda>url.
          if url = ''https://api.openserv.ai/workspaces/ws1/agent-secrets/1/value''
          then Inr \<lparr>ok = True, status = 200, body = Inr (quoted ''0xabc'')\<rparr>
          else Inr \<lparr>ok = True, status = 200, body = Inl (Error ''body stream already read'')\<rparr>\<rparr>)
      demo_env (Some ''ws1'') (demo_args\<lparr>vault_name := Some ''k2''\<rparr>) =
     ([Fetch ''https://api.openserv.ai/workspaces/ws1/agent-secrets'',
       Fetch ''https://api.openserv.ai/workspaces/ws1/agent-secrets/1/value'',
       Fetch ''https://api.openserv.ai/workspaces/ws1/agent-secrets/2/value''],
      Inr (JObj [(''error'', JStr ''body stream already read''), (''success'', JBool False)]))"
proof -
  let ?w = "demo_world\<lparr>fetch_value := \<lambda>url.
          if url = ''https://api.openserv.ai/workspaces/ws1/agent-secrets/1/value''
          then Inr \<lparr>ok = True, status = 200, body = Inr (quoted ''0xabc'')\<rparr>
          else Inr \<lparr>ok = True, status = 200, body = Inl (Error ''body stream already read'')\<rparr>\<rparr>"
  let ?args = "demo_args\<lparr>vault_name := Some ''k2''\<rparr>"
  have named: "vault_name ?args = Some ''k2''" "''k2'' \<noteq> []" "''ws1'' \<noteq> []"
    by simp_all
  have key: "truthy_string (OPENSERV_API_KEY demo_env)"
    by (simp add: demo_env_def truthy_string_def)
  have listing: "fetch_secrets demo_world (secrets_url (api_base demo_env) ''ws1'')
          = Inr \<lparr>ok = True, status = 200, body = Inr demo_secrets\<rparr>"
    "fetch_secrets ?w (secrets_url (api_base demo_env) ''ws1'')
          = Inr \<lparr>ok = True, status = 200, body = Inr demo_secrets\<rparr>"
    by (simp_all add: demo_world_def)
  have obtained: "ok \<lparr>ok = True, status = 200, body = Inr demo_secrets\<rparr>"
    "body \<lparr>ok = True, status = 200, body = Inr demo_secrets\<rparr> = Inr demo_secrets"
    by simp_all
  have unavailable:
    "find (\<lambda>s. secret_name s = ''k2'') demo_secrets = None \<or>
     (\<exists>vs vresp. find (\<lambda>s. secret_name s = ''k2'') demo_secrets = Some vs \<and>
        fetch_value demo_world (value_url (api_base demo_env) ''ws1'' (secret_id vs)) = Inr vresp \<and>
        \<not> ok vresp)"
    by (simp add: demo_secrets_def demo_world_def demo_env_def value_url_def api_base_def)
  have thrown:
    "find (\<lambda>s. secret_name s = pk_name ?args) demo_secrets
       = Some \<lparr>secret_id = ''1'', secret_name = ''k1''\<rparr> \<and>
     fetch_value ?w (value_url (api_base demo_env) ''ws1''
         (secret_id \<lparr>secret_id = ''1'', secret_name = ''k1''\<rparr>))
       = Inr \<lparr>ok = True, status = 200, body = Inr (quoted ''0xabc'')\<rparr> \<and>
     ok \<lparr>ok = True, status = 200, body = Inr (quoted ''0xabc'') :: thrown + string\<rparr> \<and>
     body \<lparr>ok = True, status = 200, body = Inr (quoted ''0xabc'') :: thrown + string\<rparr>
       = Inr (quoted ''0xabc'') \<and>
     find (\<lambda>s. secret_name s = ''k2'') demo_secrets
       = Some \<lparr>secret_id = ''2'', secret_name = ''k2''\<rparr> \<and>
     (fetch_value ?w (value_url (api_base demo_env) ''ws1''
          (secret_id \<lparr>secret_id = ''2'', secret_name = ''k2''\<rparr>))
        = Inl (Error ''body stream already read'') \<or>
      (\<exists>vresp. fetch_value ?w (value_url (api_base demo_env) ''ws1''
          (secret_id \<lparr>secret_id = ''2'', secret_name = ''k2''\<rparr>)) = Inr vresp \<and>
         ok vresp \<and> body vresp = Inl (Error ''body stream already read'')))"
    by (simp add: demo_secrets_def demo_world_def demo_env_def demo_args_def value_url_def
        api_base_def)
  have plain:
    "run demo_world demo_env (Some ''ws1'') demo_args =
       ([Fetch ''https://api.openserv.ai/workspaces/ws1/agent-secrets'',
         Fetch ''https://api.openserv.ai/workspaces/ws1/agent-secrets/1/value'',
         NewExchangeClient demo_client, AllMids, Meta,
         UpdateLeverage demo_client 0 True (Num 5), Meta,
         Order demo_client (order_of demo_args 0 (Fixed False 50100 0)),
         LogAvgFillPrice (Inl (JStr ''50010''))],
        Inr (JObj [(''success'', JBool True), (''coin'', JStr ''BTC''), (''side'', JStr ''buy''),
                (''size'', JStr ''0.01''), (''leverage'', JStr ''5''),
                (''avgFillPrice'', JStr ''50010''), (''totalFilled'', JStr ''0.01''),
                (''oid'', JNum 77), (''message'', JStr ''Successfully longed 0.01 BTC'')]))"
    by (simp add: run_eval demo_eval order_of_def)
  have same: "demo_args\<lparr>vault_name := Some ''k2'', vault_name := None\<rparr> = demo_args"
    by (simp add: demo_args_def)
  have urls: "secrets_url (api_base demo_env) ''ws1''
        = ''https://api.openserv.ai/workspaces/ws1/agent-secrets''"
    "value_url (api_base demo_env) ''ws1'' ''1''
        = ''https://api.openserv.ai/workspaces/ws1/agent-secrets/1/value''"
    "value_url (api_base demo_env) ''ws1'' ''2''
        = ''https://api.openserv.ai/workspaces/ws1/agent-secrets/2/value''"
    by (simp_all add: secrets_url_def value_url_def api_base_def demo_env_def)
  have handled: "on_exception (Error ''body stream already read'') =
      Inr (JObj [(''error'', JStr ''body stream already read''), (''success'', JBool False)])"
    by (simp add: on_exception_def caught_def truthy_def object_simps)
  from vault_unavailable_is_not_fatal [OF named key listing(1) obtained] unavailable
  have first: "snd (run demo_world demo_env (Some ''ws1'') ?args) =
        snd (run demo_world demo_env (Some ''ws1'') (?args\<lparr>vault_name := None\<rparr>)) \<and>
      orders_of (fst (run demo_world demo_env (Some ''ws1'') ?args)) =
        orders_of (fst (run demo_world demo_env (Some ''ws1'') (?args\<lparr>vault_name := None\<rparr>)))"
    by blast
  from vault_unavailable_is_not_fatal [OF named key listing(2) obtained] thrown
  have second: "run ?w demo_env (Some ''ws1'') ?args =
      ([Fetch (secrets_url (api_base demo_env) ''ws1''),
        Fetch (value_url (api_base demo_env) ''ws1''
                 (secret_id \<lparr>secret_id = ''1'', secret_name = ''k1''\<rparr>)),
        Fetch (value_url (api_base demo_env) ''ws1''
                 (secret_id \<lparr>secret_id = ''2'', secret_name = ''k2''\<rparr>))],
       on_exception (Error ''body stream already read''))"
    by blast
  show ?thesis
    using first second by (simp add: same plain urls handled demo_client_def)
qed

theorem vault_fetch_throws_counterexample:
  "run (demo_world\<lparr>fetch_value := \<lambda>url.
          if url = ''https://api.openserv.ai/workspaces/ws1/agent-secrets/1/value''
          then Inr \<lparr>ok = True, status = 200, body = Inr (quoted ''0xabc'')\<rparr>
          else Inl (Error ''fetch failed'')\<rparr>)
      demo_env (Some ''ws1'') (demo_args\<lparr>vault_name := Some ''k2''\<rparr>) =
     ([Fetch ''https://api.openserv.ai/workspaces/ws1/agent-secrets'',
       Fetch ''https://api.openserv.ai/workspaces/ws1/agent-secrets/1/value'',
       Fetch ''https://api.openserv.ai/workspaces/ws1/agent-secrets/2/value''],
      Inr (JObj [(''error'', JStr ''fetch failed''), (''success'', JBool False)])) \<and>
   orders_of (fst (run (demo_world\<lparr>fetch_value := \<lambda>url.
          if url = ''https://api.openserv.ai/workspaces/ws1/agent-secrets/1/value''
          then Inr \<lparr>ok = True, status = 200, body = Inr (quoted ''0xabc'')\<rparr>
          else Inl (Error ''fetch failed'')\<rparr>)
      demo_env (Some ''ws1'') demo_args)) =
     [(demo_client, order_of demo_args 0 (Fixed False 50100 0))]"
  by (simp add: run_eval demo_eval order_of_def)
end
